theory Spec2Isabelle
  imports Complex_Main
begin

section \<open>Python values used by app.py\<close>

text \<open>
  A Python \<open>str\<close> is a sequence of Unicode code points, not of bytes: the report
  contains characters beyond ASCII and is turned into bytes only by \<open>encode('utf-8')\<close>.
  It is modelled as a list of code points; \<open>lit\<close> reads an ASCII literal.
\<close>

type_synonym pystr = "nat list"

definition lit :: "string \<Rightarrow> pystr" where
  "lit cs = map of_char cs"

text \<open>
  A Python \<open>float\<close> is an IEEE double: a finite value (always a rational number), one
  of the two infinities, or NaN. The finite values of the model are all rationals, which
  includes every double. Comparison is exact on the values and false as soon as one side
  is NaN.
\<close>

datatype pyfloat = Finite rat | PosInf | NegInf | NaN

fun flt_lt :: "pyfloat \<Rightarrow> pyfloat \<Rightarrow> bool" where
  "flt_lt (Finite a) (Finite b) = (a < b)"
| "flt_lt (Finite a) PosInf = True"
| "flt_lt (Finite a) NegInf = False"
| "flt_lt PosInf y = False"
| "flt_lt NegInf (Finite b) = True"
| "flt_lt NegInf PosInf = True"
| "flt_lt NegInf NegInf = False"
| "flt_lt x NaN = False"
| "flt_lt NaN y = False"

fun flt_le :: "pyfloat \<Rightarrow> pyfloat \<Rightarrow> bool" where
  "flt_le (Finite a) (Finite b) = (a \<le> b)"
| "flt_le (Finite a) PosInf = True"
| "flt_le (Finite a) NegInf = False"
| "flt_le PosInf PosInf = True"
| "flt_le PosInf (Finite b) = False"
| "flt_le PosInf NegInf = False"
| "flt_le NegInf (Finite b) = True"
| "flt_le NegInf PosInf = True"
| "flt_le NegInf NegInf = True"
| "flt_le x NaN = False"
| "flt_le NaN y = False"

text \<open>
  The float literals of the source, each as the exact value of the double that Python
  reads it as (\<open>0.34\<close> is not \<open>34/100\<close>: the nearest double lies just above it).
\<close>

definition f_0_34 :: pyfloat where
  "f_0_34 = Finite (6124895493223875 / 18014398509481984)"

definition f_0_67 :: pyfloat where
  "f_0_67 = Finite (6034823500676465 / 9007199254740992)"

definition f_18_5 :: pyfloat where
  "f_18_5 = Finite (37 / 2)"

definition f_24_9 :: pyfloat where
  "f_24_9 = Finite (3504363460047667 / 140737488355328)"

definition f_0_339999 :: pyfloat where
  "f_0_339999 = Finite (6124877478825365 / 18014398509481984)"

definition f_67_1 :: pyfloat where
  "f_67_1 = Finite (2360871367160627 / 35184372088832)"

section \<open>risk\_label\<close>

text \<open>
  \<^verbatim>\<open>
  def risk_label(prob):
      if prob is None: return "Unknown", "#bdc3c7"
      if prob < 0.34: return "Low", "#2ecc71"
      if prob < 0.67: return "Medium", "#f1c40f"
      return "High", "#e74c3c"
  \<close>
  The argument is what \<open>predict_one\<close> returns as probability: \<open>None\<close> or a float.
\<close>

definition risk_label :: "pyfloat option \<Rightarrow> pystr \<times> pystr" where
  "risk_label prob =
     (case prob of
        None \<Rightarrow> (lit ''Unknown'', lit ''#bdc3c7'')
      | Some p \<Rightarrow>
          if flt_lt p f_0_34 then (lit ''Low'', lit ''#2ecc71'')
          else if flt_lt p f_0_67 then (lit ''Medium'', lit ''#f1c40f'')
          else (lit ''High'', lit ''#e74c3c''))"

section \<open>Exceptions and the model handle\<close>

text \<open>
  A raised exception is a value. The class matters in one place: \<open>except Exception\<close>
  catches every instance of \<open>Exception\<close> (all errors), and lets pass what derives from
  \<open>BaseException\<close> only (\<open>KeyboardInterrupt\<close>, \<open>SystemExit\<close>, \<open>GeneratorExit\<close>).
  The string is the name of the class.
\<close>

datatype pyexc = Exc string | NonExc string

fun is_Exception :: "pyexc \<Rightarrow> bool" where
  "is_Exception (Exc c) = True"
| "is_Exception (NonExc c) = False"

text \<open>
  The classifier is loaded from a file and is opaque. What \<open>predict_one\<close> uses of it:
  \<^item> \<open>predict m row\<close> is the outcome of \<open>int(model.predict(row_1x5)[0])\<close>: the exception
    raised by the call, the indexing or the conversion, or the integer;
  \<^item> \<open>predict_proba m\<close> is \<open>None\<close> when \<open>hasattr(model, "predict_proba")\<close> is false, and
    otherwise the outcome of \<open>float(model.predict_proba(row_1x5)[0][1])\<close>.
  A row is the 1x5 array of floats built by the submit handler.
\<close>

type_synonym row = "pyfloat list"

record model_handle =
  predict :: "row \<Rightarrow> pyexc + int"
  predict_proba :: "(row \<Rightarrow> pyexc + pyfloat) option"

text \<open>
  The state outside the functions that they read: the module-level \<open>model\<close> and the
  clock behind \<open>datetime.now()\<close>.
\<close>

record datetime =
  year :: nat
  month :: nat
  day :: nat
  hour :: nat
  minute :: nat
  second :: nat
  microsecond :: nat

record world =
  model :: model_handle
  clock :: datetime

text \<open>
  \<^verbatim>\<open>
  def predict_one(row_1x5: np.ndarray):
      pred = int(model.predict(row_1x5)[0])
      proba = None
      if hasattr(model, "predict_proba"):
          try:
              proba = float(model.predict_proba(row_1x5)[0][1])
          except Exception:
              proba = None
      return pred, proba
  \<close>
\<close>

definition predict_one :: "world \<Rightarrow> row \<Rightarrow> pyexc + (int \<times> pyfloat option)" where
  "predict_one w row_1x5 =
     (case predict (model w) row_1x5 of
        Inl e \<Rightarrow> Inl e
      | Inr pred \<Rightarrow>
          (case predict_proba (model w) of
             None \<Rightarrow> Inr (pred, None)
           | Some call \<Rightarrow>
               (case call row_1x5 of
                  Inr p \<Rightarrow> Inr (pred, Some p)
                | Inl e \<Rightarrow> if is_Exception e then Inr (pred, None) else Inl e)))"

section \<open>The limits table and the Age widgets\<close>

datatype num = IntV int | FloatV pyfloat

definition FEATURES :: "string list" where
  "FEATURES = [''Glucose'', ''BloodPressure'', ''Insulin'', ''BMI'', ''Age'']"

definition LIMITS :: "(string \<times> (num \<times> num)) list" where
  "LIMITS =
     [(''Glucose'', (IntV 0, IntV 199)),
      (''BloodPressure'', (IntV 0, IntV 122)),
      (''Insulin'', (IntV 0, IntV 846)),
      (''BMI'', (FloatV (Finite 0), FloatV f_67_1)),
      (''Age'', (IntV 21, IntV 81))]"

definition DEFAULTS :: "(string \<times> num) list" where
  "DEFAULTS =
     [(''Glucose'', IntV 117),
      (''BloodPressure'', IntV 72),
      (''Insulin'', IntV 30),
      (''BMI'', FloatV (Finite 32)),
      (''Age'', IntV 29)]"

text \<open>Subscripting a dict raises \<open>KeyError\<close> on a missing key.\<close>

definition getitem :: "('k \<times> 'v) list \<Rightarrow> 'k \<Rightarrow> pyexc + 'v" where
  "getitem d k = (case map_of d k of None \<Rightarrow> Inl (Exc ''KeyError'') | Some v \<Rightarrow> Inr v)"

text \<open>
  A slider or number input as it is declared: its label, the bounds it accepts and the
  value it starts from.
  \<^verbatim>\<open>
  st.session_state.age = st.sidebar.slider("Age (years)", LIMITS["Age"][0], 120, DEFAULTS["Age"])
  age = st.number_input("Age (years)", LIMITS["Age"][0], 120, value=st.session_state.age)
  \<close>
\<close>

record widget =
  wlabel :: pystr
  min_value :: num
  max_value :: num
  init_value :: num

definition age_slider :: "pyexc + widget" where
  "age_slider =
     (case getitem LIMITS ''Age'' of
        Inl e \<Rightarrow> Inl e
      | Inr bounds \<Rightarrow>
          (case getitem DEFAULTS ''Age'' of
             Inl e \<Rightarrow> Inl e
           | Inr d \<Rightarrow>
               Inr \<lparr>wlabel = lit ''Age (years)'', min_value = fst bounds,
                    max_value = IntV 120, init_value = d\<rparr>))"

definition age_number_input :: "num \<Rightarrow> pyexc + widget" where
  "age_number_input session_age =
     (case getitem LIMITS ''Age'' of
        Inl e \<Rightarrow> Inl e
      | Inr bounds \<Rightarrow>
          Inr \<lparr>wlabel = lit ''Age (years)'', min_value = fst bounds,
               max_value = IntV 120, init_value = session_age\<rparr>)"

section \<open>Formatting and encoding\<close>

text \<open>\<open>str\<close> of a Python int: decimal digits, a minus sign for a negative value.\<close>

fun digits :: "nat \<Rightarrow> pystr" where
  "digits n = (if n < 10 then [48 + n] else digits (n div 10) @ [48 + n mod 10])"

declare digits.simps [simp del]

definition str_int :: "int \<Rightarrow> pystr" where
  "str_int i = (if i < 0 then 45 # digits (nat (- i)) else digits (nat i))"

text \<open>
  \<open>strftime('%Y-%m-%d %H:%M')\<close>: the fields in decimal, padded with zeros to four digits
  for the year and two for the others.
\<close>

definition zpad :: "nat \<Rightarrow> nat \<Rightarrow> pystr" where
  "zpad width n = replicate (width - length (digits n)) 48 @ digits n"

definition strftime :: "datetime \<Rightarrow> pystr" where
  "strftime d =
     zpad 4 (year d) @ lit ''-'' @ zpad 2 (month d) @ lit ''-'' @ zpad 2 (day d) @
     lit '' '' @ zpad 2 (hour d) @ lit '':'' @ zpad 2 (minute d)"

text \<open>
  The float operations of the Python runtime that the code calls. Rounding and the
  shortest-digits printing of doubles are not modelled; the three operations are taken
  as they are:
  \<^item> \<open>str_float x\<close> is \<open>f"{x}"\<close>;
  \<^item> \<open>fmt_pct p\<close> is \<open>f"{p*100:.2f}%"\<close>;
  \<^item> \<open>int_pct p\<close> is \<open>int(p * 100)\<close>, which raises on NaN and on an infinity.
\<close>

record float_rt =
  str_float :: "pyfloat \<Rightarrow> pystr"
  fmt_pct :: "pyfloat \<Rightarrow> pystr"
  int_pct :: "pyfloat \<Rightarrow> pyexc + int"

text \<open>\<open>sep.join(lines)\<close>\<close>

fun join :: "pystr \<Rightarrow> pystr list \<Rightarrow> pystr" where
  "join sep [] = []"
| "join sep [x] = x"
| "join sep (x # y # ys) = x @ sep @ join sep (y # ys)"

text \<open>
  \<open>text.encode('utf-8')\<close>: one to four bytes for each code point; a surrogate code
  point (a Python \<open>str\<close> can hold one) raises \<open>UnicodeEncodeError\<close>. A Python \<open>str\<close>
  holds no code point from \<open>0x110000\<close> on; the model raises there too. Bytes are
  numbers below 256.
\<close>

type_synonym pybytes = "nat list"

definition encode_cp :: "nat \<Rightarrow> pyexc + pybytes" where
  "encode_cp c =
     (if c < 0x80 then Inr [c]
      else if c < 0x800 then Inr [0xC0 + c div 64, 0x80 + c mod 64]
      else if c < 0x10000 then
        (if 0xD800 \<le> c \<and> c \<le> 0xDFFF then Inl (Exc ''UnicodeEncodeError'')
         else Inr [0xE0 + c div 4096, 0x80 + (c div 64) mod 64, 0x80 + c mod 64])
      else if c < 0x110000 then
        Inr [0xF0 + c div 262144, 0x80 + (c div 4096) mod 64,
             0x80 + (c div 64) mod 64, 0x80 + c mod 64]
      else Inl (Exc ''UnicodeEncodeError''))"

fun encode_utf8 :: "pystr \<Rightarrow> pyexc + pybytes" where
  "encode_utf8 [] = Inr []"
| "encode_utf8 (c # cs) =
     (case encode_cp c of
        Inl e \<Rightarrow> Inl e
      | Inr bs \<Rightarrow> (case encode_utf8 cs of Inl e \<Rightarrow> Inl e | Inr rest \<Rightarrow> Inr (bs @ rest)))"

section \<open>generate\_text\_report\<close>

text \<open>
  \<^verbatim>\<open>
  def generate_text_report(name, glucose, bp, insulin, bmi, age, result, risk, prob):
      lines = []
      lines.append("===== Diabetes Prediction Report =====")
      lines.append(f"Name: {name or 'N/A'}")
      ...
      lines.append(f"Generated on: {datetime.now().strftime('%Y-%m-%d %H:%M')}")
      text_content = "\n".join(lines)
      return text_content.encode('utf-8')
  \<close>
  The arguments have the types of the one call in the source: \<open>name\<close>, \<open>result\<close>,
  \<open>risk\<close> and \<open>prob\<close> are \<open>str\<close>, \<open>bmi\<close> is a float and the other four are ints.
  \<open>report_lines\<close> is the list \<open>lines\<close> when the last \<open>append\<close> has run.
\<close>

definition warning_sign :: pystr where
  "warning_sign = [0x26A0, 0xFE0F]"

definition report_lines ::
  "float_rt \<Rightarrow> world \<Rightarrow> pystr \<Rightarrow> int \<Rightarrow> int \<Rightarrow> int \<Rightarrow> pyfloat \<Rightarrow> int \<Rightarrow>
   pystr \<Rightarrow> pystr \<Rightarrow> pystr \<Rightarrow> pystr list" where
  "report_lines rt w name glucose bp insulin bmi age result risk prob =
     (let lines = [];
          lines = lines @ [lit ''===== Diabetes Prediction Report =====''];
          lines = lines @ [lit ''Name: '' @ (if name = [] then lit ''N/A'' else name)];
          lines = lines @ [lit ''Glucose: '' @ str_int glucose];
          lines = lines @ [lit ''Blood Pressure: '' @ str_int bp];
          lines = lines @ [lit ''Insulin: '' @ str_int insulin];
          lines = lines @ [lit ''BMI: '' @ str_float rt bmi];
          lines = lines @ [lit ''Age: '' @ str_int age];
          lines = lines @ [[]];
          lines = lines @ [lit ''Prediction: '' @ result];
          lines = lines @ [lit ''Risk Level: '' @ risk];
          lines = lines @ [lit ''Probability: '' @ prob];
          lines = lines @ [[]];
          lines =
            (if result = lit ''Diabetic'' then
               (lines @ [lit ''Consult with doctor'']) @
               [lit ''Contact diabetes specialist: https://www.google.com/search?q=diabetes+doctor+near+me'']
             else
               lines @ [lit ''Tip: Maintain a balanced diet and regular exercise routine.'']);
          lines = lines @ [[]];
          lines = lines @
            [warning_sign @ lit '' Educational use only '' @ [0x2014] @ lit '' not medical advice.''];
          lines = lines @ [[]];
          lines = lines @ [replicate 38 0x2500];
          lines = lines @ [lit ''Prepared by: Tauheed Akhtar (UON)''];
          lines = lines @ [lit ''Project: Diabetes Prediction App''];
          lines = lines @ [lit ''Generated on: '' @ strftime (clock w)]
      in lines)"

definition generate_text_report ::
  "float_rt \<Rightarrow> world \<Rightarrow> pystr \<Rightarrow> int \<Rightarrow> int \<Rightarrow> int \<Rightarrow> pyfloat \<Rightarrow> int \<Rightarrow>
   pystr \<Rightarrow> pystr \<Rightarrow> pystr \<Rightarrow> pyexc + pybytes" where
  "generate_text_report rt w name glucose bp insulin bmi age result risk prob =
     (let text_content =
        join [10] (report_lines rt w name glucose bp insulin bmi age result risk prob)
      in encode_utf8 text_content)"

section \<open>The submit handler of the prediction tab\<close>

text \<open>
  What the handler shows is the list of the toolkit calls it makes, in order. A banner
  and the link are \<open>st.markdown\<close> calls with their text. The result card and the diet
  plan are \<open>st.markdown\<close> calls too: the card keeps the values put into its fixed
  markup (colour, name, percentage text, risk label and the five inputs as printed), and
  the diet plan is fixed text.
\<close>

datatype event =
    Markdown pystr
  | Progress int
  | ResultCard pystr pystr pystr pystr pystr pystr pystr pystr pystr
  | Subheader pystr
  | DietPlan
  | Info pystr
  | DownloadButton pystr pybytes pystr pystr

text \<open>The local variables of the handler when it has run to its end.\<close>

record locals =
  pred :: int
  proba :: "pyfloat option"
  healthy :: bool
  label :: pystr
  rcolor :: pystr
  pct_text :: pystr
  result :: pystr
  card_color :: pystr
  txt_bytes :: pybytes

text \<open>
  \<open>np.array([[...]], dtype=float)\<close> turns the four ints into floats; the conversion is
  exact on the values that the number inputs can return.
\<close>

definition float_of_int :: "int \<Rightarrow> pyfloat" where
  "float_of_int i = Finite (of_int i)"

text \<open>
  \<^verbatim>\<open>
  healthy = (70 <= glucose <= 120 and 60 <= blood_pressure <= 80 and
          15 <= insulin <= 276 and 18.5 <= bmi <= 24.9 and 18 <= age <= 60)
  \<close>
\<close>

definition healthy_expr :: "int \<Rightarrow> int \<Rightarrow> int \<Rightarrow> pyfloat \<Rightarrow> int \<Rightarrow> bool" where
  "healthy_expr glucose blood_pressure insulin bmi age =
     ((70 \<le> glucose \<and> glucose \<le> 120) \<and> (60 \<le> blood_pressure \<and> blood_pressure \<le> 80) \<and>
      (15 \<le> insulin \<and> insulin \<le> 276) \<and> (flt_le f_18_5 bmi \<and> flt_le bmi f_24_9) \<and>
      (18 \<le> age \<and> age \<le> 60))"

definition banner_not_diabetes :: "pystr \<Rightarrow> pystr" where
  "banner_not_diabetes who =
     lit ''<div class='' @ [39] @ lit ''neon-result'' @ [39] @ lit ''>'' @ [0x2705] @
     lit '' '' @ who @ lit '' has not diabetes</div>''"

definition banner_diabetes :: "pystr \<Rightarrow> pystr" where
  "banner_diabetes who =
     lit ''<div class='' @ [39] @ lit ''neon-result bad'' @ [39] @ lit ''>'' @ warning_sign @
     lit '' '' @ who @ lit '' has diabetes</div>''"

text \<open>
  \<open>st.progress(n)\<close> takes an int from 0 to 100 and raises the toolkit's exception on
  any other.
\<close>

definition st_progress :: "int \<Rightarrow> pyexc + event list" where
  "st_progress n =
     (if 0 \<le> n \<and> n \<le> 100 then Inr [Progress n] else Inl (Exc ''StreamlitAPIException''))"

text \<open>
  \<^verbatim>\<open>
  if submitted:
      row = np.array([[glucose, blood_pressure, insulin, bmi, age]], dtype=float)
      pred, proba = predict_one(row)
      healthy = (...)
      if healthy:
          st.markdown(... has not diabetes ...)
          pred = 0
      elif pred == 1:
          st.markdown(... has diabetes ...)
      else:
          st.markdown(... has not diabetes ...)
      label, rcolor = risk_label(proba)
      pct_text = "N/A" if proba is None else f"{proba*100:.2f}%"
      if proba is not None:
          st.progress(int(proba * 100))
      result = "Diabetic" if pred == 1 else "Not Diabetic"
      card_color = "#00ccff" if pred == 1 else "#00ff99"
      st.markdown(... result card ...)
      if pred == 1: ... advice ...
      else: st.info(...)
      txt_bytes = generate_text_report(name, glucose, blood_pressure, insulin, bmi, age,
                                       result, label, pct_text)
      st.download_button(..., data=txt_bytes, file_name=f"{name or 'patient'}_report.txt", ...)
  \<close>
  The handler returns the calls made so far and either the exception that ended it or
  its final variables.
\<close>

definition submit_handler ::
  "float_rt \<Rightarrow> world \<Rightarrow> pystr \<Rightarrow> int \<Rightarrow> int \<Rightarrow> int \<Rightarrow> pyfloat \<Rightarrow> int \<Rightarrow>
   event list \<times> (pyexc + locals)" where
  "submit_handler rt w name glucose blood_pressure insulin bmi age =
     (let row = [float_of_int glucose, float_of_int blood_pressure, float_of_int insulin,
                 bmi, float_of_int age]
      in case predict_one w row of
        Inl e \<Rightarrow> ([], Inl e)
      | Inr (pred0, proba0) \<Rightarrow>
          (let healthy0 = healthy_expr glucose blood_pressure insulin bmi age;
               who = (if name = [] then lit ''Patient'' else name);
               shown =
                 (if healthy0 then [Markdown (banner_not_diabetes who)]
                  else if pred0 = 1 then [Markdown (banner_diabetes who)]
                  else [Markdown (banner_not_diabetes who)]);
               pred1 = (if healthy0 then 0 else pred0);
               (label0, rcolor0) = risk_label proba0;
               pct = (case proba0 of None \<Rightarrow> lit ''N/A'' | Some p \<Rightarrow> fmt_pct rt p)
           in case (case proba0 of
                      None \<Rightarrow> Inr []
                    | Some p \<Rightarrow>
                        (case int_pct rt p of Inl e \<Rightarrow> Inl e | Inr n \<Rightarrow> st_progress n)) of
                Inl e \<Rightarrow> (shown, Inl e)
              | Inr bar \<Rightarrow>
                  (let result0 = (if pred1 = 1 then lit ''Diabetic'' else lit ''Not Diabetic'');
                       color = (if pred1 = 1 then lit ''#00ccff'' else lit ''#00ff99'');
                       card =
                         ResultCard color (if name = [] then lit ''N/A'' else name) pct label0
                           (str_int glucose) (str_int blood_pressure) (str_int insulin)
                           (str_float rt bmi) (str_int age);
                       advice =
                         (if pred1 = 1 then
                            [Subheader ([0x1F468, 0x200D, 0x2695, 0xFE0F] @
                               lit '' Consult with Doctor''),
                             Markdown (lit ''[Contact diabetes specialist](https://www.google.com/search?q=diabetes+doctor+near+me)''),
                             Subheader ([0x1F957] @
                               lit '' Diet and Exercise Plan for Diabetics''),
                             DietPlan]
                          else
                            [Info ([0x2705] @
                               lit '' Maintain a healthy lifestyle with balanced diet and regular exercise.'')]);
                       shown1 = shown @ bar @ [card] @ advice
                   in case generate_text_report rt w name glucose blood_pressure insulin bmi age
                             result0 label0 pct of
                        Inl e \<Rightarrow> (shown1, Inl e)
                      | Inr bytes \<Rightarrow>
                          (shown1 @
                             [DownloadButton ([0x2B07, 0xFE0F] @ lit '' Download Report (TXT)'')
                                bytes
                                ((if name = [] then lit ''patient'' else name) @
                                   lit ''_report.txt'')
                                (lit ''text/plain'')],
                           Inr \<lparr>pred = pred1, proba = proba0, healthy = healthy0,
                                label = label0, rcolor = rcolor0, pct_text = pct,
                                result = result0, card_color = color,
                                txt_bytes = bytes\<rparr>))))"

section \<open>What a UTF-8 byte sequence is\<close>

text \<open>
  The reading of a byte sequence as UTF-8 (RFC 3629), against which the report's bytes
  are judged: continuation bytes are \<open>10xxxxxx\<close>, no encoding longer than needed, no
  surrogate and nothing beyond \<open>0x10FFFF\<close>. \<open>None\<close> when the bytes are not UTF-8.
\<close>

definition is_cont :: "nat \<Rightarrow> bool" where
  "is_cont b = (0x80 \<le> b \<and> b < 0xC0)"

fun utf8_decode :: "pybytes \<Rightarrow> pystr option" where
  "utf8_decode [] = Some []"
| "utf8_decode (b0 # bs) =
     (if b0 < 0x80 then map_option ((#) b0) (utf8_decode bs)
      else if 0xC2 \<le> b0 \<and> b0 < 0xE0 then
        (case bs of
           b1 # r \<Rightarrow>
             if is_cont b1
             then map_option ((#) ((b0 - 0xC0) * 64 + (b1 - 0x80))) (utf8_decode r)
             else None
         | _ \<Rightarrow> None)
      else if 0xE0 \<le> b0 \<and> b0 < 0xF0 then
        (case bs of
           b1 # b2 # r \<Rightarrow>
             (let c = (b0 - 0xE0) * 4096 + (b1 - 0x80) * 64 + (b2 - 0x80)
              in if is_cont b1 \<and> is_cont b2 \<and> 0x800 \<le> c \<and> \<not> (0xD800 \<le> c \<and> c \<le> 0xDFFF)
                 then map_option ((#) c) (utf8_decode r)
                 else None)
         | _ \<Rightarrow> None)
      else if 0xF0 \<le> b0 \<and> b0 < 0xF5 then
        (case bs of
           b1 # b2 # b3 # r \<Rightarrow>
             (let c = (b0 - 0xF0) * 262144 + (b1 - 0x80) * 4096 + (b2 - 0x80) * 64 + (b3 - 0x80)
              in if is_cont b1 \<and> is_cont b2 \<and> is_cont b3 \<and> 0x10000 \<le> c \<and> c < 0x110000
                 then map_option ((#) c) (utf8_decode r)
                 else None)
         | _ \<Rightarrow> None)
      else None)"

text \<open>
  The code points that stand for text: every one up to \<open>0x10FFFF\<close> but the
  surrogates.
\<close>

definition is_scalar :: "nat \<Rightarrow> bool" where
  "is_scalar c = (c < 0x110000 \<and> \<not> (0xD800 \<le> c \<and> c \<le> 0xDFFF))"

definition well_formed :: "pystr \<Rightarrow> bool" where
  "well_formed s = list_all is_scalar s"

section \<open>Stubs for the scenarios\<close>

text \<open>
  A classifier that always answers 1 with probability 0.8, one that has no
  \<open>predict_proba\<close>, one whose \<open>predict_proba\<close> raises, and one whose \<open>predict\<close> raises;
  the float operations at the values the scenarios meet; a clock reading.
\<close>

definition f_0_8 :: pyfloat where
  "f_0_8 = Finite (3602879701896397 / 4503599627370496)"

definition stub_diabetic :: model_handle where
  "stub_diabetic =
     \<lparr>predict = (\<lambda>r. Inr 1), predict_proba = Some (\<lambda>r. Inr f_0_8)\<rparr>"

definition stub_no_proba :: model_handle where
  "stub_no_proba = \<lparr>predict = (\<lambda>r. Inr 1), predict_proba = None\<rparr>"

definition stub_proba_raises :: model_handle where
  "stub_proba_raises =
     \<lparr>predict = (\<lambda>r. Inr 1), predict_proba = Some (\<lambda>r. Inl (Exc ''ValueError''))\<rparr>"

definition stub_predict_raises :: model_handle where
  "stub_predict_raises =
     \<lparr>predict = (\<lambda>r. Inl (Exc ''ValueError'')), predict_proba = Some (\<lambda>r. Inr f_0_8)\<rparr>"

definition stub_rt :: float_rt where
  "stub_rt =
     \<lparr>str_float = (\<lambda>x. if x = Finite 22 then lit ''22.0''
                         else if x = Finite 35 then lit ''35.0'' else lit ''nan''),
      fmt_pct = (\<lambda>p. if p = f_0_8 then lit ''80.00%'' else lit ''nan%''),
      int_pct = (\<lambda>p. if p = f_0_8 then Inr 80 else Inl (Exc ''ValueError''))\<rparr>"

definition stub_clock :: datetime where
  "stub_clock =
     \<lparr>year = 2024, month = 3, day = 9, hour = 14, minute = 5, second = 30, microsecond = 0\<rparr>"

section \<open>What is read off the output\<close>

text \<open>
  The decimal numeral that a string is, as \<open>int(s)\<close> reads what \<open>str\<close> prints: digits
  only, the first one not \<open>0\<close> unless the numeral is \<open>0\<close> itself, and a minus sign only
  in front of a value other than 0. Any other string reads as \<open>None\<close>.
  \<open>digits_value\<close> takes the digits with the least significant first.
\<close>

fun digits_value :: "pystr \<Rightarrow> nat" where
  "digits_value [] = 0"
| "digits_value (c # cs) = (c - 48) + 10 * digits_value cs"

definition read_nat :: "pystr \<Rightarrow> nat option" where
  "read_nat s =
     (if s \<noteq> [] \<and> list_all (\<lambda>c. 48 \<le> c \<and> c \<le> 57) s \<and> (s = [48] \<or> hd s \<noteq> 48)
      then Some (digits_value (rev s)) else None)"

definition read_int :: "pystr \<Rightarrow> int option" where
  "read_int s =
     (if s \<noteq> [] \<and> hd s = 45 then
        (case read_nat (tl s) of
           None \<Rightarrow> None
         | Some n \<Rightarrow> if n = 0 then None else Some (- int n))
      else map_option int (read_nat s))"

text \<open>
  The risk buckets on display: the bucket of every result card among the toolkit calls,
  in order.
\<close>

fun shown_bucket :: "event list \<Rightarrow> pystr list" where
  "shown_bucket [] = []"
| "shown_bucket (ResultCard color who pct bucket g b i m a # evs) = bucket # shown_bucket evs"
| "shown_bucket (ev # evs) = shown_bucket evs"

section \<open>Properties of risk\_label\<close>

lemma flt_le_not_lt: "flt_le a b \<Longrightarrow> \<not> flt_lt b a"
  by (cases a; cases b) auto

lemma flt_lt_trans: "flt_lt a b \<Longrightarrow> flt_lt b c \<Longrightarrow> flt_lt a c"
  by (cases a; cases b; cases c) auto

lemma flt_lt_le_trans: "flt_lt a b \<Longrightarrow> flt_le b c \<Longrightarrow> flt_lt a c"
  by (cases a; cases b; cases c) auto

lemma flt_le_lt_trans: "flt_le a b \<Longrightarrow> flt_lt b c \<Longrightarrow> flt_lt a c"
  by (cases a; cases b; cases c) auto

lemma f_0_34_lt_f_0_67: "flt_lt f_0_34 f_0_67"
  by (simp add: f_0_34_def f_0_67_def)

lemma risk_names_distinct:
  "lit ''Unknown'' \<noteq> lit ''Low''" "lit ''Unknown'' \<noteq> lit ''Medium''"
  "lit ''Unknown'' \<noteq> lit ''High''" "lit ''Low'' \<noteq> lit ''Medium''"
  "lit ''Low'' \<noteq> lit ''High''" "lit ''Medium'' \<noteq> lit ''High''"
  by (simp_all add: lit_def)

lemma risk_label_None: "fst (risk_label None) = lit ''Unknown''"
  by (simp add: risk_label_def)

lemma risk_label_Low:
  "flt_lt p f_0_34 \<Longrightarrow> fst (risk_label (Some p)) = lit ''Low''"
  by (simp add: risk_label_def)

lemma risk_label_Medium:
  assumes "flt_le f_0_34 p" and "flt_lt p f_0_67"
  shows "fst (risk_label (Some p)) = lit ''Medium''"
  using assms flt_le_not_lt [of f_0_34 p] by (simp add: risk_label_def)

lemma risk_label_High:
  assumes "flt_le f_0_67 p"
  shows "fst (risk_label (Some p)) = lit ''High''"
proof -
  have "\<not> flt_lt p f_0_67"
    using assms by (rule flt_le_not_lt)
  moreover have "\<not> flt_lt p f_0_34"
    using flt_lt_trans [OF _ f_0_34_lt_f_0_67] \<open>\<not> flt_lt p f_0_67\<close> by blast
  ultimately show ?thesis
    by (simp add: risk_label_def)
qed

lemma risk_label_Some_known: "fst (risk_label (Some p)) \<noteq> lit ''Unknown''"
  using risk_names_distinct by (simp add: risk_label_def)


text \<open>
  Claim C2. \<open>risk_label\<close> is the step function of the probability: Unknown for an
  absent probability, Low below 0.34, Medium from 0.34 up to but not including 0.67, High
  from 0.67 on; Unknown is returned for an absent probability only. At the boundaries,
  0.34 gives Medium, 0.67 gives High and 0.339999 gives Low.
\<close>

theorem risk_label_step_function:
  "fst (risk_label None) = lit ''Unknown'' \<and>
   (\<forall>p. flt_lt p f_0_34 \<longrightarrow> fst (risk_label (Some p)) = lit ''Low'') \<and>
   (\<forall>p. flt_le f_0_34 p \<and> flt_lt p f_0_67 \<longrightarrow> fst (risk_label (Some p)) = lit ''Medium'') \<and>
   (\<forall>p. flt_le f_0_67 p \<longrightarrow> fst (risk_label (Some p)) = lit ''High'') \<and>
   (\<forall>prob. (fst (risk_label prob) = lit ''Unknown'') = (prob = None)) \<and>
   fst (risk_label (Some f_0_34)) = lit ''Medium'' \<and>
   fst (risk_label (Some f_0_67)) = lit ''High'' \<and>
   fst (risk_label (Some f_0_339999)) = lit ''Low''"
proof -
  have unknown: "(fst (risk_label prob) = lit ''Unknown'') = (prob = None)" for prob
    using risk_label_None risk_label_Some_known by (cases prob) auto
  have b1: "fst (risk_label (Some f_0_34)) = lit ''Medium''"
    by (rule risk_label_Medium) (simp_all add: f_0_34_def f_0_67_def)
  have b2: "fst (risk_label (Some f_0_67)) = lit ''High''"
    by (rule risk_label_High) (simp add: f_0_67_def)
  have b3: "fst (risk_label (Some f_0_339999)) = lit ''Low''"
    by (rule risk_label_Low) (simp add: f_0_339999_def f_0_34_def)
  show ?thesis
    using risk_label_None risk_label_Low risk_label_Medium risk_label_High unknown b1 b2 b3
    by blast
qed

theorem risk_label_step_function_witness:
  "flt_lt (Finite (1 / 10)) f_0_34 \<and> fst (risk_label (Some (Finite (1 / 10)))) = lit ''Low'' \<and>
   flt_le f_0_34 (Finite (1 / 2)) \<and> flt_lt (Finite (1 / 2)) f_0_67 \<and>
   fst (risk_label (Some (Finite (1 / 2)))) = lit ''Medium'' \<and>
   flt_le f_0_67 f_0_8 \<and> fst (risk_label (Some f_0_8)) = lit ''High''"
proof -
  have h1: "flt_lt (Finite (1 / 10)) f_0_34" by (simp add: f_0_34_def)
  have h2: "flt_le f_0_34 (Finite (1 / 2))" by (simp add: f_0_34_def)
  have h3: "flt_lt (Finite (1 / 2)) f_0_67" by (simp add: f_0_67_def)
  have h4: "flt_le f_0_67 f_0_8" by (simp add: f_0_67_def f_0_8_def)
  show ?thesis
    using h1 h2 h3 h4 risk_label_step_function by blast
qed

text \<open>
  Claim C10. \<open>risk_label\<close> checks no range: every float, inside \<open>[0,1]\<close> or not, gets
  one of the three buckets; every value below 0.34 is Low, the negative ones included,
  and every value from 0.67 on is High, those above 1 included. The function has no
  failing path: its result is always a pair of strings.
\<close>

theorem risk_label_total_unvalidated:
  "(\<forall>p. fst (risk_label (Some p)) = lit ''Low'' \<or> fst (risk_label (Some p)) = lit ''Medium'' \<or>
        fst (risk_label (Some p)) = lit ''High'') \<and>
   (\<forall>p. flt_lt p f_0_34 \<longrightarrow> fst (risk_label (Some p)) = lit ''Low'') \<and>
   (\<forall>p. flt_lt p (Finite 0) \<longrightarrow> fst (risk_label (Some p)) = lit ''Low'') \<and>
   (\<forall>p. flt_le f_0_67 p \<longrightarrow> fst (risk_label (Some p)) = lit ''High'') \<and>
   (\<forall>p. flt_lt (Finite 1) p \<longrightarrow> fst (risk_label (Some p)) = lit ''High'')"
proof -
  have total: "fst (risk_label (Some p)) = lit ''Low'' \<or> fst (risk_label (Some p)) = lit ''Medium'' \<or>
      fst (risk_label (Some p)) = lit ''High''" for p
    by (simp add: risk_label_def)
  have neg: "fst (risk_label (Some p)) = lit ''Low''" if "flt_lt p (Finite 0)" for p
  proof -
    have "flt_lt (Finite 0) f_0_34" by (simp add: f_0_34_def)
    with that have "flt_lt p f_0_34" by (rule flt_lt_trans)
    then show ?thesis by (rule risk_label_Low)
  qed
  have big: "fst (risk_label (Some p)) = lit ''High''" if "flt_lt (Finite 1) p" for p
  proof -
    have "flt_le f_0_67 (Finite 1)" by (simp add: f_0_67_def)
    then have "flt_le f_0_67 p" using that by (cases p) (auto simp: f_0_67_def)
    then show ?thesis by (rule risk_label_High)
  qed
  show ?thesis
    using total neg big risk_label_Low risk_label_High by blast
qed

theorem risk_label_total_unvalidated_witness:
  "flt_lt (Finite (- 5)) (Finite 0) \<and> fst (risk_label (Some (Finite (- 5)))) = lit ''Low'' \<and>
   flt_lt (Finite 1) (Finite 7) \<and> fst (risk_label (Some (Finite 7))) = lit ''High'' \<and>
   flt_lt NegInf f_0_34 \<and> fst (risk_label (Some NegInf)) = lit ''Low'' \<and>
   flt_le f_0_67 PosInf \<and> fst (risk_label (Some PosInf)) = lit ''High''"
proof -
  have h1: "flt_lt (Finite (- 5)) (Finite 0)" by simp
  have h2: "flt_lt (Finite 1) (Finite 7)" by simp
  have h3: "flt_lt NegInf f_0_34" by (simp add: f_0_34_def)
  have h4: "flt_le f_0_67 PosInf" by (simp add: f_0_67_def)
  show ?thesis
    using h1 h2 h3 h4 risk_label_total_unvalidated by blast
qed

section \<open>UTF-8: encoding and reading back\<close>

lemma of_char_nat_less: "(of_char c :: nat) < 256"
proof -
  have "(of_char c :: nat) mod 256 = of_char c" by (rule of_char_mod_256)
  moreover have "(of_char c :: nat) mod 256 < 256" by simp
  ultimately show ?thesis by simp
qed

lemma well_formed_lit: "well_formed (lit cs)"
proof -
  have "is_scalar (of_char c :: nat)" for c
    unfolding is_scalar_def using of_char_nat_less [of c] by linarith
  then show ?thesis
    by (simp add: well_formed_def lit_def list_all_iff)
qed

lemma decode_cp1:
  assumes "c < 0x80"
  shows "encode_cp c = Inr [c]"
    "utf8_decode ([c] @ rest) = map_option ((#) c) (utf8_decode rest)"
  using assms by (simp_all add: encode_cp_def)

lemma decode_cp2:
  assumes "0x80 \<le> c" "c < 0x800"
  shows "encode_cp c = Inr [0xC0 + c div 64, 0x80 + c mod 64]"
    "utf8_decode ([0xC0 + c div 64, 0x80 + c mod 64] @ rest) =
       map_option ((#) c) (utf8_decode rest)"
proof -
  show "encode_cp c = Inr [0xC0 + c div 64, 0x80 + c mod 64]"
    using assms by (simp add: encode_cp_def)
  have a: "2 \<le> c div 64" "c div 64 < 32" using assms by auto
  have b: "c mod 64 < 64" by simp
  have c: "c div 64 * 64 + c mod 64 = c" by simp
  show "utf8_decode ([0xC0 + c div 64, 0x80 + c mod 64] @ rest) =
      map_option ((#) c) (utf8_decode rest)"
    using a b c by (simp add: is_cont_def)
qed

lemma split3: "(c::nat) div 4096 * 4096 + (c div 64) mod 64 * 64 + c mod 64 = c"
proof -
  have "c div 64 div 64 = c div 4096" by (simp add: div_mult2_eq)
  then have "c div 64 = c div 4096 * 64 + (c div 64) mod 64"
    using div_mult_mod_eq [of "c div 64" 64] by simp
  moreover have "c = c div 64 * 64 + c mod 64" by simp
  ultimately show ?thesis by linarith
qed

lemma split4:
  "(c::nat) div 262144 * 262144 + (c div 4096) mod 64 * 4096 + (c div 64) mod 64 * 64 + c mod 64 = c"
proof -
  have "c div 4096 div 64 = c div 262144" by (simp add: div_mult2_eq)
  then have "c div 4096 = c div 262144 * 64 + (c div 4096) mod 64"
    using div_mult_mod_eq [of "c div 4096" 64] by simp
  then show ?thesis using split3 [of c] by linarith
qed

lemma decode_cp3:
  assumes "0x800 \<le> c" "c < 0x10000" "\<not> (0xD800 \<le> c \<and> c \<le> 0xDFFF)"
  shows "encode_cp c = Inr [0xE0 + c div 4096, 0x80 + (c div 64) mod 64, 0x80 + c mod 64]"
   "utf8_decode ([0xE0 + c div 4096, 0x80 + (c div 64) mod 64, 0x80 + c mod 64] @ rest) = map_option ((#) c) (utf8_decode rest)"
proof -
  show "encode_cp c = Inr [0xE0 + c div 4096, 0x80 + (c div 64) mod 64, 0x80 + c mod 64]"
    using assms by (simp add: encode_cp_def)
  have a: "c div 4096 < 16" using assms by auto
  have b: "c mod 64 < 64" "(c div 64) mod 64 < 64" by simp_all
  show "utf8_decode ([0xE0 + c div 4096, 0x80 + (c div 64) mod 64, 0x80 + c mod 64] @ rest) = map_option ((#) c) (utf8_decode rest)"
    using a b split3 [of c] assms by (simp add: is_cont_def Let_def)
qed

lemma decode_cp4:
  assumes "0x10000 \<le> c" "c < 0x110000"
  shows "encode_cp c = Inr [0xF0 + c div 262144, 0x80 + (c div 4096) mod 64, 0x80 + (c div 64) mod 64, 0x80 + c mod 64]"
   "utf8_decode ([0xF0 + c div 262144, 0x80 + (c div 4096) mod 64, 0x80 + (c div 64) mod 64, 0x80 + c mod 64] @ rest) = map_option ((#) c) (utf8_decode rest)"
proof -
  show "encode_cp c = Inr [0xF0 + c div 262144, 0x80 + (c div 4096) mod 64, 0x80 + (c div 64) mod 64, 0x80 + c mod 64]"
    using assms by (simp add: encode_cp_def)
  have a: "c div 262144 < 5" using assms by auto
  have b: "c mod 64 < 64" "(c div 64) mod 64 < 64" "(c div 4096) mod 64 < 64" by simp_all
  show "utf8_decode ([0xF0 + c div 262144, 0x80 + (c div 4096) mod 64, 0x80 + (c div 64) mod 64, 0x80 + c mod 64] @ rest) = map_option ((#) c) (utf8_decode rest)"
    using a b split4 [of c] assms by (simp add: is_cont_def Let_def)
qed

lemma encode_cp_decode:
  assumes "is_scalar c"
  shows "\<exists>bs. encode_cp c = Inr bs \<and> list_all (\<lambda>b. b < 256) bs \<and>
           utf8_decode (bs @ rest) = map_option ((#) c) (utf8_decode rest)"
proof -
  have "c mod 64 < 64" "(c div 64) mod 64 < 64" "(c div 4096) mod 64 < 64"
    by simp_all
  then have m: "0x80 + c mod 64 < 256" "0x80 + (c div 64) mod 64 < 256"
    "0x80 + (c div 4096) mod 64 < 256"
    by linarith+
  consider "c < 0x80" | "0x80 \<le> c" "c < 0x800" | "0x800 \<le> c" "c < 0x10000"
    | "0x10000 \<le> c"
    by linarith
  then show ?thesis
  proof cases
    case 1
    have "list_all (\<lambda>b. b < 256) [c]" using 1 by simp
    then show ?thesis
      using decode_cp1(1) [OF 1] decode_cp1(2) [OF 1, of rest] by blast
  next
    case 2
    have "c div 64 < 32" using 2 by auto
    then have "list_all (\<lambda>b. b < 256) [0xC0 + c div 64, 0x80 + c mod 64]"
      using m by simp
    then show ?thesis
      using decode_cp2(1) [OF 2] decode_cp2(2) [OF 2, of rest] by blast
  next
    case 3
    have ns: "\<not> (0xD800 \<le> c \<and> c \<le> 0xDFFF)"
      using assms by (simp add: is_scalar_def)
    have "c div 4096 < 16" using 3 by auto
    then have "list_all (\<lambda>b. b < 256)
        [0xE0 + c div 4096, 0x80 + (c div 64) mod 64, 0x80 + c mod 64]"
      using m by simp
    then show ?thesis
      using decode_cp3(1) [OF 3 ns] decode_cp3(2) [OF 3 ns, of rest] by blast
  next
    case 4
    have lt: "c < 0x110000" using assms by (simp add: is_scalar_def)
    have "c div 262144 < 5" using lt by auto
    then have "list_all (\<lambda>b. b < 256)
        [0xF0 + c div 262144, 0x80 + (c div 4096) mod 64, 0x80 + (c div 64) mod 64,
         0x80 + c mod 64]"
      using m by simp
    then show ?thesis
      using decode_cp4(1) [OF 4 lt] decode_cp4(2) [OF 4 lt, of rest] by blast
  qed
qed

lemma encode_utf8_roundtrip:
  "well_formed s \<Longrightarrow>
     \<exists>bs. encode_utf8 s = Inr bs \<and> list_all (\<lambda>b. b < 256) bs \<and> utf8_decode bs = Some s"
proof (induction s)
  case Nil
  then show ?case by simp
next
  case (Cons c cs)
  then have c: "is_scalar c" and cs: "well_formed cs"
    by (simp_all add: well_formed_def)
  from Cons.IH [OF cs] obtain rest where
    rest: "encode_utf8 cs = Inr rest" "list_all (\<lambda>b. b < 256) rest" "utf8_decode rest = Some cs"
    by blast
  from encode_cp_decode [OF c, of rest] obtain bs where
    bs: "encode_cp c = Inr bs" "list_all (\<lambda>b. b < 256) bs"
      "utf8_decode (bs @ rest) = map_option ((#) c) (utf8_decode rest)"
    by blast
  show ?case using rest bs by simp
qed

lemma encode_utf8_surrogate: "encode_utf8 [0xD800] = Inl (Exc ''UnicodeEncodeError'')"
  by (simp add: encode_cp_def)

lemma well_formed_append: "well_formed (a @ b) = (well_formed a \<and> well_formed b)"
  by (simp add: well_formed_def)

lemma well_formed_join:
  "well_formed sep \<Longrightarrow> list_all well_formed ls \<Longrightarrow> well_formed (join sep ls)"
  by (induction sep ls rule: join.induct) (simp_all add: well_formed_def)

lemma digits_ascii: "list_all (\<lambda>c. c < 128) (digits n)"
proof (induction n rule: digits.induct)
  case (1 n)
  show ?case
  proof (cases "n < 10")
    case True
    then show ?thesis by (simp add: digits.simps [of n])
  next
    case False
    have "n mod 10 < 10" by simp
    with False 1 show ?thesis by (simp add: digits.simps [of n])
  qed
qed

lemma ascii_well_formed: "list_all (\<lambda>c. c < 128) s \<Longrightarrow> well_formed s"
  by (induction s) (simp_all add: well_formed_def is_scalar_def)

lemma well_formed_digits: "well_formed (digits n)"
  by (rule ascii_well_formed) (rule digits_ascii)

lemma well_formed_str_int: "well_formed (str_int i)"
  using well_formed_digits by (simp add: str_int_def well_formed_def is_scalar_def)

lemma well_formed_zpad: "well_formed (zpad k n)"
  using well_formed_digits [of n]
  by (auto simp: zpad_def well_formed_def list_all_iff is_scalar_def)

lemma well_formed_strftime: "well_formed (strftime d)"
  by (simp add: strftime_def well_formed_append well_formed_zpad well_formed_lit)

section \<open>The report's lines and bytes\<close>

lemma well_formed_fixed:
  "well_formed warning_sign" "well_formed [0x2014]" "well_formed (replicate 38 0x2500)"
  "well_formed []" "well_formed [10]"
  by (simp_all add: well_formed_def warning_sign_def is_scalar_def list_all_iff)

lemma well_formed_Cons: "well_formed (c # s) = (is_scalar c \<and> well_formed s)"
  by (simp add: well_formed_def)

lemma report_lines_eq:
  "report_lines rt w name glucose bp insulin bmi age res risk prob =
     [lit ''===== Diabetes Prediction Report ====='',
      lit ''Name: '' @ (if name = [] then lit ''N/A'' else name),
      lit ''Glucose: '' @ str_int glucose,
      lit ''Blood Pressure: '' @ str_int bp,
      lit ''Insulin: '' @ str_int insulin,
      lit ''BMI: '' @ str_float rt bmi,
      lit ''Age: '' @ str_int age,
      [],
      lit ''Prediction: '' @ res,
      lit ''Risk Level: '' @ risk,
      lit ''Probability: '' @ prob,
      []] @
     (if res = lit ''Diabetic'' then
        [lit ''Consult with doctor'',
         lit ''Contact diabetes specialist: https://www.google.com/search?q=diabetes+doctor+near+me'']
      else [lit ''Tip: Maintain a balanced diet and regular exercise routine.'']) @
     [[],
      warning_sign @ lit '' Educational use only '' @ [0x2014] @ lit '' not medical advice.'',
      [],
      replicate 38 0x2500,
      lit ''Prepared by: Tauheed Akhtar (UON)'',
      lit ''Project: Diabetes Prediction App'',
      lit ''Generated on: '' @ strftime (clock w)]"
  unfolding report_lines_def Let_def by simp

lemma well_formed_report_lines:
  assumes "well_formed name" "well_formed (str_float rt bmi)" "well_formed res"
    "well_formed risk" "well_formed prob"
  shows "list_all well_formed
           (report_lines rt w name glucose bp insulin bmi age res risk prob)"
  unfolding report_lines_eq using assms
  by (simp add: well_formed_append well_formed_lit well_formed_str_int well_formed_strftime
      well_formed_fixed well_formed_Cons is_scalar_def)

lemma generate_text_report_ok:
  assumes "well_formed name" "well_formed (str_float rt bmi)" "well_formed res"
    "well_formed risk" "well_formed prob"
  shows "\<exists>bs. generate_text_report rt w name glucose bp insulin bmi age res risk prob = Inr bs \<and>
           list_all (\<lambda>b. b < 256) bs \<and>
           utf8_decode bs =
             Some (join [10] (report_lines rt w name glucose bp insulin bmi age res risk prob))"
proof -
  have "well_formed (join [10] (report_lines rt w name glucose bp insulin bmi age res risk prob))"
    using well_formed_report_lines [OF assms] by (intro well_formed_join well_formed_fixed)
  from encode_utf8_roundtrip [OF this] show ?thesis
    by (simp add: generate_text_report_def)
qed

lemma digits_nonempty: "digits n \<noteq> []"
  by (subst digits.simps) simp

lemma digits_range: "list_all (\<lambda>c. 48 \<le> c \<and> c \<le> 57) (digits n)"
proof (induction n rule: digits.induct)
  case (1 n)
  show ?case
  proof (cases "n < 10")
    case True
    then show ?thesis by (simp add: digits.simps [of n])
  next
    case False
    have "n mod 10 < 10" by simp
    then have "48 + n mod 10 \<le> 57" by linarith
    with False 1 show ?thesis by (simp add: digits.simps [of n])
  qed
qed

lemma digits_leading: "hd (digits n) = 48 \<Longrightarrow> n = 0"
proof (induction n rule: digits.induct)
  case (1 n)
  show ?case
  proof (cases "n < 10")
    case True
    with 1(2) show ?thesis by (simp add: digits.simps [of n])
  next
    case False
    then have "hd (digits n) = hd (digits (n div 10))"
      using digits_nonempty [of "n div 10"] by (simp add: digits.simps [of n])
    with 1 False have "n div 10 = 0" by simp
    with False show ?thesis by simp
  qed
qed

lemma digits_value_digits: "digits_value (rev (digits n)) = n"
proof (induction n rule: digits.induct)
  case (1 n)
  show ?case
  proof (cases "n < 10")
    case True
    then show ?thesis by (simp add: digits.simps [of n])
  next
    case False
    with 1 show ?thesis by (simp add: digits.simps [of n])
  qed
qed

lemma digits_zero: "digits 0 = [48]"
  by (simp add: digits.simps [of 0])

lemma read_nat_digits: "read_nat (digits n) = Some n"
proof -
  have "digits n = [48] \<or> hd (digits n) \<noteq> 48"
    using digits_leading [of n] digits_zero by auto
  then show ?thesis
    using digits_nonempty [of n] digits_range [of n] digits_value_digits [of n]
    by (simp add: read_nat_def)
qed

lemma read_int_str_int: "read_int (str_int i) = Some i"
proof (cases "i < 0")
  case True
  then have "nat (- i) \<noteq> 0" by simp
  with True show ?thesis
    by (simp add: str_int_def read_int_def read_nat_digits)
next
  case False
  have "hd (digits (nat i)) \<noteq> 45"
    using digits_range [of "nat i"] digits_nonempty [of "nat i"]
    by (cases "digits (nat i)") auto
  with False show ?thesis
    by (simp add: str_int_def read_int_def read_nat_digits)
qed

lemma join_report_lines:
  "join [10] (report_lines rt w name glucose bp insulin bmi age res risk prob) =
        lit ''===== Diabetes Prediction Report ====='' @ [10] @
        lit ''Name: '' @ (if name = [] then lit ''N/A'' else name) @ [10] @
        lit ''Glucose: '' @ str_int glucose @ [10] @
        lit ''Blood Pressure: '' @ str_int bp @ [10] @
        lit ''Insulin: '' @ str_int insulin @ [10] @
        lit ''BMI: '' @ str_float rt bmi @ [10] @
        lit ''Age: '' @ str_int age @ [10] @
        [10] @
        lit ''Prediction: '' @ res @ [10] @
        lit ''Risk Level: '' @ risk @ [10] @
        lit ''Probability: '' @ prob @ [10] @
        [10] @
        (if res = lit ''Diabetic'' then
           lit ''Consult with doctor'' @ [10] @
           lit ''Contact diabetes specialist: https://www.google.com/search?q=diabetes+doctor+near+me''
         else lit ''Tip: Maintain a balanced diet and regular exercise routine.'') @ [10] @
        [10] @
        warning_sign @ lit '' Educational use only '' @ [0x2014] @ lit '' not medical advice.'' @ [10] @
        [10] @
        replicate 38 0x2500 @ [10] @
        lit ''Prepared by: Tauheed Akhtar (UON)'' @ [10] @
        lit ''Project: Diabetes Prediction App'' @ [10] @
        lit ''Generated on: '' @ strftime (clock w)"
  unfolding report_lines_eq by simp

text \<open>
  Claim C5. For every name, five input values, result string, risk bucket and
  probability text, \<open>generate_text_report\<close> returns bytes that are UTF-8 and read
  back as this text, each line ended by a newline but the last: header, Name (\<open>N/A\<close> for
  an empty name), Glucose, Blood Pressure, Insulin, BMI, Age, a blank line, Prediction,
  Risk Level, Probability, a blank line, the advice block, a blank line, the disclaimer, a
  blank line, separator, author, project, timestamp. The advice block is the two fixed
  lines exactly when the result is \<open>Diabetic\<close>, and the one tip line otherwise. The four
  integer values are printed as the decimal numerals that read back as them. The strings
  are text: they hold no surrogate code point, which \<open>encode\<close> refuses.
\<close>

theorem report_structure:
  assumes "well_formed name" and "well_formed (str_float rt bmi)" and "well_formed res"
    and "well_formed risk" and "well_formed prob"
  shows "\<exists>bs. generate_text_report rt w name glucose bp insulin bmi age res risk prob = Inr bs \<and>
     list_all (\<lambda>b. b < 256) bs \<and>
     utf8_decode bs = Some
       (lit ''===== Diabetes Prediction Report ====='' @ [10] @
        lit ''Name: '' @ (if name = [] then lit ''N/A'' else name) @ [10] @
        lit ''Glucose: '' @ str_int glucose @ [10] @
        lit ''Blood Pressure: '' @ str_int bp @ [10] @
        lit ''Insulin: '' @ str_int insulin @ [10] @
        lit ''BMI: '' @ str_float rt bmi @ [10] @
        lit ''Age: '' @ str_int age @ [10] @
        [10] @
        lit ''Prediction: '' @ res @ [10] @
        lit ''Risk Level: '' @ risk @ [10] @
        lit ''Probability: '' @ prob @ [10] @
        [10] @
        (if res = lit ''Diabetic'' then
           lit ''Consult with doctor'' @ [10] @
           lit ''Contact diabetes specialist: https://www.google.com/search?q=diabetes+doctor+near+me''
         else lit ''Tip: Maintain a balanced diet and regular exercise routine.'') @ [10] @
        [10] @
        warning_sign @ lit '' Educational use only '' @ [0x2014] @ lit '' not medical advice.'' @ [10] @
        [10] @
        replicate 38 0x2500 @ [10] @
        lit ''Prepared by: Tauheed Akhtar (UON)'' @ [10] @
        lit ''Project: Diabetes Prediction App'' @ [10] @
        lit ''Generated on: '' @ strftime (clock w)) \<and>
     read_int (str_int glucose) = Some glucose \<and> read_int (str_int bp) = Some bp \<and>
     read_int (str_int insulin) = Some insulin \<and> read_int (str_int age) = Some age"
  using generate_text_report_ok [OF assms, of w glucose bp insulin age]
  unfolding join_report_lines by (simp add: read_int_str_int)

lemma replicate_38:
  "replicate 38 x =
     [x, x, x, x, x, x, x, x, x, x, x, x, x, x, x, x, x, x, x,
      x, x, x, x, x, x, x, x, x, x, x, x, x, x, x, x, x, x, x]"
  by (simp add: numeral_eq_Suc)

lemma stub_values:
  "str_int 180 = [49, 56, 48]" "str_int 90 = [57, 48]" "str_int 300 = [51, 48, 48]"
  "str_int 45 = [52, 53]" "str_float stub_rt (Finite 35) = [51, 53, 46, 48]"
  "strftime stub_clock = [50, 48, 50, 52, 45, 48, 51, 45, 48, 57, 32, 49, 52, 58, 48, 53]"
  by (simp_all add: str_int_def digits.simps stub_rt_def lit_def strftime_def zpad_def
      stub_clock_def)

text \<open>
  The report of one patient, byte by byte: Ada, glucose 180, blood pressure 90, insulin
  300, BMI 35.0, age 45, \<open>Diabetic\<close>, \<open>High\<close>, \<open>80.00%\<close>, at 14:05 on 9 March 2024.
\<close>

theorem report_structure_witness:
  "well_formed (lit ''Ada'') \<and> well_formed (str_float stub_rt (Finite 35)) \<and>
   well_formed (lit ''Diabetic'') \<and> well_formed (lit ''High'') \<and> well_formed (lit ''80.00%'') \<and>
   generate_text_report stub_rt \<lparr>model = stub_diabetic, clock = stub_clock\<rparr>
       (lit ''Ada'') 180 90 300 (Finite 35) 45 (lit ''Diabetic'') (lit ''High'')
       (lit ''80.00%'') =
     Inr
      [61, 61, 61, 61, 61, 32, 68, 105, 97, 98, 101, 116, 101, 115, 32, 80, 114, 101, 100, 105,
       99, 116, 105, 111, 110, 32, 82, 101, 112, 111, 114, 116, 32, 61, 61, 61, 61, 61, 10, 78,
       97, 109, 101, 58, 32, 65, 100, 97, 10, 71, 108, 117, 99, 111, 115, 101, 58, 32, 49, 56,
       48, 10, 66, 108, 111, 111, 100, 32, 80, 114, 101, 115, 115, 117, 114, 101, 58, 32, 57,
       48, 10, 73, 110, 115, 117, 108, 105, 110, 58, 32, 51, 48, 48, 10, 66, 77, 73, 58, 32,
       51, 53, 46, 48, 10, 65, 103, 101, 58, 32, 52, 53, 10, 10, 80, 114, 101, 100, 105, 99,
       116, 105, 111, 110, 58, 32, 68, 105, 97, 98, 101, 116, 105, 99, 10, 82, 105, 115, 107,
       32, 76, 101, 118, 101, 108, 58, 32, 72, 105, 103, 104, 10, 80, 114, 111, 98, 97, 98,
       105, 108, 105, 116, 121, 58, 32, 56, 48, 46, 48, 48, 37, 10, 10, 67, 111, 110, 115, 117,
       108, 116, 32, 119, 105, 116, 104, 32, 100, 111, 99, 116, 111, 114, 10, 67, 111, 110,
       116, 97, 99, 116, 32, 100, 105, 97, 98, 101, 116, 101, 115, 32, 115, 112, 101, 99, 105,
       97, 108, 105, 115, 116, 58, 32, 104, 116, 116, 112, 115, 58, 47, 47, 119, 119, 119, 46,
       103, 111, 111, 103, 108, 101, 46, 99, 111, 109, 47, 115, 101, 97, 114, 99, 104, 63, 113,
       61, 100, 105, 97, 98, 101, 116, 101, 115, 43, 100, 111, 99, 116, 111, 114, 43, 110, 101,
       97, 114, 43, 109, 101, 10, 10, 226, 154, 160, 239, 184, 143, 32, 69, 100, 117, 99, 97,
       116, 105, 111, 110, 97, 108, 32, 117, 115, 101, 32, 111, 110, 108, 121, 32, 226, 128,
       148, 32, 110, 111, 116, 32, 109, 101, 100, 105, 99, 97, 108, 32, 97, 100, 118, 105, 99,
       101, 46, 10, 10, 226, 148, 128, 226, 148, 128, 226, 148, 128, 226, 148, 128, 226, 148,
       128, 226, 148, 128, 226, 148, 128, 226, 148, 128, 226, 148, 128, 226, 148, 128, 226,
       148, 128, 226, 148, 128, 226, 148, 128, 226, 148, 128, 226, 148, 128, 226, 148, 128,
       226, 148, 128, 226, 148, 128, 226, 148, 128, 226, 148, 128, 226, 148, 128, 226, 148,
       128, 226, 148, 128, 226, 148, 128, 226, 148, 128, 226, 148, 128, 226, 148, 128, 226,
       148, 128, 226, 148, 128, 226, 148, 128, 226, 148, 128, 226, 148, 128, 226, 148, 128,
       226, 148, 128, 226, 148, 128, 226, 148, 128, 226, 148, 128, 226, 148, 128, 10, 80, 114,
       101, 112, 97, 114, 101, 100, 32, 98, 121, 58, 32, 84, 97, 117, 104, 101, 101, 100, 32,
       65, 107, 104, 116, 97, 114, 32, 40, 85, 79, 78, 41, 10, 80, 114, 111, 106, 101, 99, 116,
       58, 32, 68, 105, 97, 98, 101, 116, 101, 115, 32, 80, 114, 101, 100, 105, 99, 116, 105,
       111, 110, 32, 65, 112, 112, 10, 71, 101, 110, 101, 114, 97, 116, 101, 100, 32, 111, 110,
       58, 32, 50, 48, 50, 52, 45, 48, 51, 45, 48, 57, 32, 49, 52, 58, 48, 53] \<and>
   utf8_decode
      [61, 61, 61, 61, 61, 32, 68, 105, 97, 98, 101, 116, 101, 115, 32, 80, 114, 101, 100, 105,
       99, 116, 105, 111, 110, 32, 82, 101, 112, 111, 114, 116, 32, 61, 61, 61, 61, 61, 10, 78,
       97, 109, 101, 58, 32, 65, 100, 97, 10, 71, 108, 117, 99, 111, 115, 101, 58, 32, 49, 56,
       48, 10, 66, 108, 111, 111, 100, 32, 80, 114, 101, 115, 115, 117, 114, 101, 58, 32, 57,
       48, 10, 73, 110, 115, 117, 108, 105, 110, 58, 32, 51, 48, 48, 10, 66, 77, 73, 58, 32,
       51, 53, 46, 48, 10, 65, 103, 101, 58, 32, 52, 53, 10, 10, 80, 114, 101, 100, 105, 99,
       116, 105, 111, 110, 58, 32, 68, 105, 97, 98, 101, 116, 105, 99, 10, 82, 105, 115, 107,
       32, 76, 101, 118, 101, 108, 58, 32, 72, 105, 103, 104, 10, 80, 114, 111, 98, 97, 98,
       105, 108, 105, 116, 121, 58, 32, 56, 48, 46, 48, 48, 37, 10, 10, 67, 111, 110, 115, 117,
       108, 116, 32, 119, 105, 116, 104, 32, 100, 111, 99, 116, 111, 114, 10, 67, 111, 110,
       116, 97, 99, 116, 32, 100, 105, 97, 98, 101, 116, 101, 115, 32, 115, 112, 101, 99, 105,
       97, 108, 105, 115, 116, 58, 32, 104, 116, 116, 112, 115, 58, 47, 47, 119, 119, 119, 46,
       103, 111, 111, 103, 108, 101, 46, 99, 111, 109, 47, 115, 101, 97, 114, 99, 104, 63, 113,
       61, 100, 105, 97, 98, 101, 116, 101, 115, 43, 100, 111, 99, 116, 111, 114, 43, 110, 101,
       97, 114, 43, 109, 101, 10, 10, 226, 154, 160, 239, 184, 143, 32, 69, 100, 117, 99, 97,
       116, 105, 111, 110, 97, 108, 32, 117, 115, 101, 32, 111, 110, 108, 121, 32, 226, 128,
       148, 32, 110, 111, 116, 32, 109, 101, 100, 105, 99, 97, 108, 32, 97, 100, 118, 105, 99,
       101, 46, 10, 10, 226, 148, 128, 226, 148, 128, 226, 148, 128, 226, 148, 128, 226, 148,
       128, 226, 148, 128, 226, 148, 128, 226, 148, 128, 226, 148, 128, 226, 148, 128, 226,
       148, 128, 226, 148, 128, 226, 148, 128, 226, 148, 128, 226, 148, 128, 226, 148, 128,
       226, 148, 128, 226, 148, 128, 226, 148, 128, 226, 148, 128, 226, 148, 128, 226, 148,
       128, 226, 148, 128, 226, 148, 128, 226, 148, 128, 226, 148, 128, 226, 148, 128, 226,
       148, 128, 226, 148, 128, 226, 148, 128, 226, 148, 128, 226, 148, 128, 226, 148, 128,
       226, 148, 128, 226, 148, 128, 226, 148, 128, 226, 148, 128, 226, 148, 128, 10, 80, 114,
       101, 112, 97, 114, 101, 100, 32, 98, 121, 58, 32, 84, 97, 117, 104, 101, 101, 100, 32,
       65, 107, 104, 116, 97, 114, 32, 40, 85, 79, 78, 41, 10, 80, 114, 111, 106, 101, 99, 116,
       58, 32, 68, 105, 97, 98, 101, 116, 101, 115, 32, 80, 114, 101, 100, 105, 99, 116, 105,
       111, 110, 32, 65, 112, 112, 10, 71, 101, 110, 101, 114, 97, 116, 101, 100, 32, 111, 110,
       58, 32, 50, 48, 50, 52, 45, 48, 51, 45, 48, 57, 32, 49, 52, 58, 48, 53] =
     Some (lit ''===== Diabetes Prediction Report ====='' @ [10] @
        lit ''Name: Ada'' @ [10] @
        lit ''Glucose: 180'' @ [10] @
        lit ''Blood Pressure: 90'' @ [10] @
        lit ''Insulin: 300'' @ [10] @
        lit ''BMI: 35.0'' @ [10] @
        lit ''Age: 45'' @ [10] @
        [10] @
        lit ''Prediction: Diabetic'' @ [10] @
        lit ''Risk Level: High'' @ [10] @
        lit ''Probability: 80.00%'' @ [10] @
        [10] @
        lit ''Consult with doctor'' @ [10] @
        lit ''Contact diabetes specialist: https://www.google.com/search?q=diabetes+doctor+near+me'' @ [10] @
        [10] @
        [0x26A0, 0xFE0F] @ lit '' Educational use only '' @ [0x2014] @ lit '' not medical advice.'' @ [10] @
        [10] @
        replicate 38 0x2500 @ [10] @
        lit ''Prepared by: Tauheed Akhtar (UON)'' @ [10] @
        lit ''Project: Diabetes Prediction App'' @ [10] @
        lit ''Generated on: 2024-03-09 14:05'') \<and>
   read_int [49, 56, 48] = Some 180"
proof -
  let ?w = "\<lparr>model = stub_diabetic, clock = stub_clock\<rparr>"
  have h: "well_formed (lit ''Ada'')" "well_formed (str_float stub_rt (Finite 35))"
    "well_formed (lit ''Diabetic'')" "well_formed (lit ''High'')" "well_formed (lit ''80.00%'')"
    by (simp_all add: stub_rt_def well_formed_lit)
  have ev: "generate_text_report stub_rt ?w (lit ''Ada'') 180 90 300 (Finite 35) 45
      (lit ''Diabetic'') (lit ''High'') (lit ''80.00%'') =
     Inr
      [61, 61, 61, 61, 61, 32, 68, 105, 97, 98, 101, 116, 101, 115, 32, 80, 114, 101, 100, 105,
       99, 116, 105, 111, 110, 32, 82, 101, 112, 111, 114, 116, 32, 61, 61, 61, 61, 61, 10, 78,
       97, 109, 101, 58, 32, 65, 100, 97, 10, 71, 108, 117, 99, 111, 115, 101, 58, 32, 49, 56,
       48, 10, 66, 108, 111, 111, 100, 32, 80, 114, 101, 115, 115, 117, 114, 101, 58, 32, 57,
       48, 10, 73, 110, 115, 117, 108, 105, 110, 58, 32, 51, 48, 48, 10, 66, 77, 73, 58, 32,
       51, 53, 46, 48, 10, 65, 103, 101, 58, 32, 52, 53, 10, 10, 80, 114, 101, 100, 105, 99,
       116, 105, 111, 110, 58, 32, 68, 105, 97, 98, 101, 116, 105, 99, 10, 82, 105, 115, 107,
       32, 76, 101, 118, 101, 108, 58, 32, 72, 105, 103, 104, 10, 80, 114, 111, 98, 97, 98,
       105, 108, 105, 116, 121, 58, 32, 56, 48, 46, 48, 48, 37, 10, 10, 67, 111, 110, 115, 117,
       108, 116, 32, 119, 105, 116, 104, 32, 100, 111, 99, 116, 111, 114, 10, 67, 111, 110,
       116, 97, 99, 116, 32, 100, 105, 97, 98, 101, 116, 101, 115, 32, 115, 112, 101, 99, 105,
       97, 108, 105, 115, 116, 58, 32, 104, 116, 116, 112, 115, 58, 47, 47, 119, 119, 119, 46,
       103, 111, 111, 103, 108, 101, 46, 99, 111, 109, 47, 115, 101, 97, 114, 99, 104, 63, 113,
       61, 100, 105, 97, 98, 101, 116, 101, 115, 43, 100, 111, 99, 116, 111, 114, 43, 110, 101,
       97, 114, 43, 109, 101, 10, 10, 226, 154, 160, 239, 184, 143, 32, 69, 100, 117, 99, 97,
       116, 105, 111, 110, 97, 108, 32, 117, 115, 101, 32, 111, 110, 108, 121, 32, 226, 128,
       148, 32, 110, 111, 116, 32, 109, 101, 100, 105, 99, 97, 108, 32, 97, 100, 118, 105, 99,
       101, 46, 10, 10, 226, 148, 128, 226, 148, 128, 226, 148, 128, 226, 148, 128, 226, 148,
       128, 226, 148, 128, 226, 148, 128, 226, 148, 128, 226, 148, 128, 226, 148, 128, 226,
       148, 128, 226, 148, 128, 226, 148, 128, 226, 148, 128, 226, 148, 128, 226, 148, 128,
       226, 148, 128, 226, 148, 128, 226, 148, 128, 226, 148, 128, 226, 148, 128, 226, 148,
       128, 226, 148, 128, 226, 148, 128, 226, 148, 128, 226, 148, 128, 226, 148, 128, 226,
       148, 128, 226, 148, 128, 226, 148, 128, 226, 148, 128, 226, 148, 128, 226, 148, 128,
       226, 148, 128, 226, 148, 128, 226, 148, 128, 226, 148, 128, 226, 148, 128, 10, 80, 114,
       101, 112, 97, 114, 101, 100, 32, 98, 121, 58, 32, 84, 97, 117, 104, 101, 101, 100, 32,
       65, 107, 104, 116, 97, 114, 32, 40, 85, 79, 78, 41, 10, 80, 114, 111, 106, 101, 99, 116,
       58, 32, 68, 105, 97, 98, 101, 116, 101, 115, 32, 80, 114, 101, 100, 105, 99, 116, 105,
       111, 110, 32, 65, 112, 112, 10, 71, 101, 110, 101, 114, 97, 116, 101, 100, 32, 111, 110,
       58, 32, 50, 48, 50, 52, 45, 48, 51, 45, 48, 57, 32, 49, 52, 58, 48, 53]"
    unfolding generate_text_report_def Let_def join_report_lines
    by (simp add: stub_values lit_def warning_sign_def encode_cp_def replicate_38)
  from report_structure [OF h, of ?w 180 90 300 45]
  obtain bs where bs: "generate_text_report stub_rt ?w (lit ''Ada'') 180 90 300 (Finite 35) 45
      (lit ''Diabetic'') (lit ''High'') (lit ''80.00%'') = Inr bs"
    and dec: "utf8_decode bs = Some
       (lit ''===== Diabetes Prediction Report ====='' @ [10] @
        lit ''Name: '' @ (if (lit ''Ada'') = [] then lit ''N/A'' else (lit ''Ada'')) @ [10] @
        lit ''Glucose: '' @ str_int 180 @ [10] @
        lit ''Blood Pressure: '' @ str_int 90 @ [10] @
        lit ''Insulin: '' @ str_int 300 @ [10] @
        lit ''BMI: '' @ str_float stub_rt (Finite 35) @ [10] @
        lit ''Age: '' @ str_int 45 @ [10] @
        [10] @
        lit ''Prediction: '' @ lit ''Diabetic'' @ [10] @
        lit ''Risk Level: '' @ lit ''High'' @ [10] @
        lit ''Probability: '' @ lit ''80.00%'' @ [10] @
        [10] @
        (if lit ''Diabetic'' = lit ''Diabetic'' then
           lit ''Consult with doctor'' @ [10] @
           lit ''Contact diabetes specialist: https://www.google.com/search?q=diabetes+doctor+near+me''
         else lit ''Tip: Maintain a balanced diet and regular exercise routine.'') @ [10] @
        [10] @
        warning_sign @ lit '' Educational use only '' @ [0x2014] @ lit '' not medical advice.'' @ [10] @
        [10] @
        replicate 38 0x2500 @ [10] @
        lit ''Prepared by: Tauheed Akhtar (UON)'' @ [10] @
        lit ''Project: Diabetes Prediction App'' @ [10] @
        lit ''Generated on: '' @ strftime (clock \<lparr>model = stub_diabetic, clock = stub_clock\<rparr>))"
    and rd: "read_int (str_int 180) = Some 180"
    by blast
  have eq: "bs =
      [61, 61, 61, 61, 61, 32, 68, 105, 97, 98, 101, 116, 101, 115, 32, 80, 114, 101, 100, 105,
       99, 116, 105, 111, 110, 32, 82, 101, 112, 111, 114, 116, 32, 61, 61, 61, 61, 61, 10, 78,
       97, 109, 101, 58, 32, 65, 100, 97, 10, 71, 108, 117, 99, 111, 115, 101, 58, 32, 49, 56,
       48, 10, 66, 108, 111, 111, 100, 32, 80, 114, 101, 115, 115, 117, 114, 101, 58, 32, 57,
       48, 10, 73, 110, 115, 117, 108, 105, 110, 58, 32, 51, 48, 48, 10, 66, 77, 73, 58, 32,
       51, 53, 46, 48, 10, 65, 103, 101, 58, 32, 52, 53, 10, 10, 80, 114, 101, 100, 105, 99,
       116, 105, 111, 110, 58, 32, 68, 105, 97, 98, 101, 116, 105, 99, 10, 82, 105, 115, 107,
       32, 76, 101, 118, 101, 108, 58, 32, 72, 105, 103, 104, 10, 80, 114, 111, 98, 97, 98,
       105, 108, 105, 116, 121, 58, 32, 56, 48, 46, 48, 48, 37, 10, 10, 67, 111, 110, 115, 117,
       108, 116, 32, 119, 105, 116, 104, 32, 100, 111, 99, 116, 111, 114, 10, 67, 111, 110,
       116, 97, 99, 116, 32, 100, 105, 97, 98, 101, 116, 101, 115, 32, 115, 112, 101, 99, 105,
       97, 108, 105, 115, 116, 58, 32, 104, 116, 116, 112, 115, 58, 47, 47, 119, 119, 119, 46,
       103, 111, 111, 103, 108, 101, 46, 99, 111, 109, 47, 115, 101, 97, 114, 99, 104, 63, 113,
       61, 100, 105, 97, 98, 101, 116, 101, 115, 43, 100, 111, 99, 116, 111, 114, 43, 110, 101,
       97, 114, 43, 109, 101, 10, 10, 226, 154, 160, 239, 184, 143, 32, 69, 100, 117, 99, 97,
       116, 105, 111, 110, 97, 108, 32, 117, 115, 101, 32, 111, 110, 108, 121, 32, 226, 128,
       148, 32, 110, 111, 116, 32, 109, 101, 100, 105, 99, 97, 108, 32, 97, 100, 118, 105, 99,
       101, 46, 10, 10, 226, 148, 128, 226, 148, 128, 226, 148, 128, 226, 148, 128, 226, 148,
       128, 226, 148, 128, 226, 148, 128, 226, 148, 128, 226, 148, 128, 226, 148, 128, 226,
       148, 128, 226, 148, 128, 226, 148, 128, 226, 148, 128, 226, 148, 128, 226, 148, 128,
       226, 148, 128, 226, 148, 128, 226, 148, 128, 226, 148, 128, 226, 148, 128, 226, 148,
       128, 226, 148, 128, 226, 148, 128, 226, 148, 128, 226, 148, 128, 226, 148, 128, 226,
       148, 128, 226, 148, 128, 226, 148, 128, 226, 148, 128, 226, 148, 128, 226, 148, 128,
       226, 148, 128, 226, 148, 128, 226, 148, 128, 226, 148, 128, 226, 148, 128, 10, 80, 114,
       101, 112, 97, 114, 101, 100, 32, 98, 121, 58, 32, 84, 97, 117, 104, 101, 101, 100, 32,
       65, 107, 104, 116, 97, 114, 32, 40, 85, 79, 78, 41, 10, 80, 114, 111, 106, 101, 99, 116,
       58, 32, 68, 105, 97, 98, 101, 116, 101, 115, 32, 80, 114, 101, 100, 105, 99, 116, 105,
       111, 110, 32, 65, 112, 112, 10, 71, 101, 110, 101, 114, 97, 116, 101, 100, 32, 111, 110,
       58, 32, 50, 48, 50, 52, 45, 48, 51, 45, 48, 57, 32, 49, 52, 58, 48, 53]"
    using bs ev by simp
  have dec': "utf8_decode
      [61, 61, 61, 61, 61, 32, 68, 105, 97, 98, 101, 116, 101, 115, 32, 80, 114, 101, 100, 105,
       99, 116, 105, 111, 110, 32, 82, 101, 112, 111, 114, 116, 32, 61, 61, 61, 61, 61, 10, 78,
       97, 109, 101, 58, 32, 65, 100, 97, 10, 71, 108, 117, 99, 111, 115, 101, 58, 32, 49, 56,
       48, 10, 66, 108, 111, 111, 100, 32, 80, 114, 101, 115, 115, 117, 114, 101, 58, 32, 57,
       48, 10, 73, 110, 115, 117, 108, 105, 110, 58, 32, 51, 48, 48, 10, 66, 77, 73, 58, 32,
       51, 53, 46, 48, 10, 65, 103, 101, 58, 32, 52, 53, 10, 10, 80, 114, 101, 100, 105, 99,
       116, 105, 111, 110, 58, 32, 68, 105, 97, 98, 101, 116, 105, 99, 10, 82, 105, 115, 107,
       32, 76, 101, 118, 101, 108, 58, 32, 72, 105, 103, 104, 10, 80, 114, 111, 98, 97, 98,
       105, 108, 105, 116, 121, 58, 32, 56, 48, 46, 48, 48, 37, 10, 10, 67, 111, 110, 115, 117,
       108, 116, 32, 119, 105, 116, 104, 32, 100, 111, 99, 116, 111, 114, 10, 67, 111, 110,
       116, 97, 99, 116, 32, 100, 105, 97, 98, 101, 116, 101, 115, 32, 115, 112, 101, 99, 105,
       97, 108, 105, 115, 116, 58, 32, 104, 116, 116, 112, 115, 58, 47, 47, 119, 119, 119, 46,
       103, 111, 111, 103, 108, 101, 46, 99, 111, 109, 47, 115, 101, 97, 114, 99, 104, 63, 113,
       61, 100, 105, 97, 98, 101, 116, 101, 115, 43, 100, 111, 99, 116, 111, 114, 43, 110, 101,
       97, 114, 43, 109, 101, 10, 10, 226, 154, 160, 239, 184, 143, 32, 69, 100, 117, 99, 97,
       116, 105, 111, 110, 97, 108, 32, 117, 115, 101, 32, 111, 110, 108, 121, 32, 226, 128,
       148, 32, 110, 111, 116, 32, 109, 101, 100, 105, 99, 97, 108, 32, 97, 100, 118, 105, 99,
       101, 46, 10, 10, 226, 148, 128, 226, 148, 128, 226, 148, 128, 226, 148, 128, 226, 148,
       128, 226, 148, 128, 226, 148, 128, 226, 148, 128, 226, 148, 128, 226, 148, 128, 226,
       148, 128, 226, 148, 128, 226, 148, 128, 226, 148, 128, 226, 148, 128, 226, 148, 128,
       226, 148, 128, 226, 148, 128, 226, 148, 128, 226, 148, 128, 226, 148, 128, 226, 148,
       128, 226, 148, 128, 226, 148, 128, 226, 148, 128, 226, 148, 128, 226, 148, 128, 226,
       148, 128, 226, 148, 128, 226, 148, 128, 226, 148, 128, 226, 148, 128, 226, 148, 128,
       226, 148, 128, 226, 148, 128, 226, 148, 128, 226, 148, 128, 226, 148, 128, 10, 80, 114,
       101, 112, 97, 114, 101, 100, 32, 98, 121, 58, 32, 84, 97, 117, 104, 101, 101, 100, 32,
       65, 107, 104, 116, 97, 114, 32, 40, 85, 79, 78, 41, 10, 80, 114, 111, 106, 101, 99, 116,
       58, 32, 68, 105, 97, 98, 101, 116, 101, 115, 32, 80, 114, 101, 100, 105, 99, 116, 105,
       111, 110, 32, 65, 112, 112, 10, 71, 101, 110, 101, 114, 97, 116, 101, 100, 32, 111, 110,
       58, 32, 50, 48, 50, 52, 45, 48, 51, 45, 48, 57, 32, 49, 52, 58, 48, 53] =
     Some (lit ''===== Diabetes Prediction Report ====='' @ [10] @
        lit ''Name: Ada'' @ [10] @
        lit ''Glucose: 180'' @ [10] @
        lit ''Blood Pressure: 90'' @ [10] @
        lit ''Insulin: 300'' @ [10] @
        lit ''BMI: 35.0'' @ [10] @
        lit ''Age: 45'' @ [10] @
        [10] @
        lit ''Prediction: Diabetic'' @ [10] @
        lit ''Risk Level: High'' @ [10] @
        lit ''Probability: 80.00%'' @ [10] @
        [10] @
        lit ''Consult with doctor'' @ [10] @
        lit ''Contact diabetes specialist: https://www.google.com/search?q=diabetes+doctor+near+me'' @ [10] @
        [10] @
        [0x26A0, 0xFE0F] @ lit '' Educational use only '' @ [0x2014] @ lit '' not medical advice.'' @ [10] @
        [10] @
        replicate 38 0x2500 @ [10] @
        lit ''Prepared by: Tauheed Akhtar (UON)'' @ [10] @
        lit ''Project: Diabetes Prediction App'' @ [10] @
        lit ''Generated on: 2024-03-09 14:05'')"
    using dec unfolding eq by (simp add: stub_values lit_def warning_sign_def replicate_38)
  have rd': "read_int [49, 56, 48] = Some 180"
    using rd unfolding stub_values .
  show ?thesis
    using h ev dec' rd' by blast
qed

text \<open>
  Claim C8. With the same arguments and the same clock reading, two calls of
  \<open>generate_text_report\<close> return the same bytes, whatever else differs in the state
  around them: the clock is all that the report reads beyond its arguments.
\<close>

theorem report_deterministic:
  assumes "clock w1 = clock w2"
  shows "generate_text_report rt w1 name glucose bp insulin bmi age res risk prob =
         generate_text_report rt w2 name glucose bp insulin bmi age res risk prob"
  using assms by (simp add: generate_text_report_def report_lines_def)

theorem report_deterministic_witness:
  "clock \<lparr>model = stub_diabetic, clock = stub_clock\<rparr> =
     clock \<lparr>model = stub_no_proba, clock = stub_clock\<rparr> \<and>
   \<lparr>model = stub_diabetic, clock = stub_clock\<rparr> \<noteq> \<lparr>model = stub_no_proba, clock = stub_clock\<rparr> \<and>
   generate_text_report stub_rt \<lparr>model = stub_diabetic, clock = stub_clock\<rparr>
       [] 100 70 100 (Finite 22) 30 (lit ''Not Diabetic'') (lit ''High'') (lit ''80.00%'') =
     generate_text_report stub_rt \<lparr>model = stub_no_proba, clock = stub_clock\<rparr>
       [] 100 70 100 (Finite 22) 30 (lit ''Not Diabetic'') (lit ''High'') (lit ''80.00%'')"
proof -
  have c: "clock \<lparr>model = stub_diabetic, clock = stub_clock\<rparr> =
      clock \<lparr>model = stub_no_proba, clock = stub_clock\<rparr>"
    by simp
  have d: "stub_diabetic \<noteq> stub_no_proba"
  proof
    assume "stub_diabetic = stub_no_proba"
    then have "predict_proba stub_diabetic = predict_proba stub_no_proba" by simp
    then show False by (simp add: stub_diabetic_def stub_no_proba_def)
  qed
  show ?thesis
    using c d report_deterministic [OF c] by simp
qed

text \<open>
  Claim C9. The limits table gives Age the bounds 21 and 81. The sidebar slider and the
  form's number input both take their lower bound from the table and have the upper
  bound 120 written in place of the table's 81.
\<close>

theorem age_bounds_inconsistent:
  "getitem LIMITS ''Age'' = Inr (IntV 21, IntV 81) \<and>
   age_slider =
     Inr \<lparr>wlabel = lit ''Age (years)'', min_value = IntV 21, max_value = IntV 120,
          init_value = IntV 29\<rparr> \<and>
   age_number_input v =
     Inr \<lparr>wlabel = lit ''Age (years)'', min_value = IntV 21, max_value = IntV 120,
          init_value = v\<rparr> \<and>
   IntV 120 \<noteq> IntV 81"
  by (simp add: age_slider_def age_number_input_def getitem_def LIMITS_def DEFAULTS_def)

section \<open>predict\_one and the submit handler\<close>

lemma predict_one_raises:
  "predict (model w) r = Inl e \<Longrightarrow> predict_one w r = Inl e"
  by (simp add: predict_one_def)

lemma predict_one_no_proba:
  assumes "predict (model w) r = Inr p0"
    and "predict_proba (model w) = None \<or>
         (\<exists>call e. predict_proba (model w) = Some call \<and> call r = Inl e \<and> is_Exception e)"
  shows "predict_one w r = Inr (p0, None)"
  using assms by (auto simp: predict_one_def)

lemma predict_one_Inr:
  "predict_one w r = Inr (p0, pr) \<Longrightarrow> predict (model w) r = Inr p0"
  by (auto simp: predict_one_def split: sum.splits option.splits if_splits)

lemma submit_handler_Inr:
  assumes "snd (submit_handler rt w name g bp ins bmi age) = Inr l"
  shows "\<exists>p0. predict_one w [float_of_int g, float_of_int bp, float_of_int ins, bmi,
                 float_of_int age] = Inr (p0, proba l) \<and>
     healthy l = healthy_expr g bp ins bmi age \<and>
     pred l = (if healthy l then 0 else p0) \<and>
     label l = fst (risk_label (proba l)) \<and>
     pct_text l = (case proba l of None \<Rightarrow> lit ''N/A'' | Some p \<Rightarrow> fmt_pct rt p) \<and>
     result l = (if pred l = 1 then lit ''Diabetic'' else lit ''Not Diabetic'') \<and>
     generate_text_report rt w name g bp ins bmi age (result l) (label l) (pct_text l) =
       Inr (txt_bytes l)"
  using assms unfolding submit_handler_def Let_def
  by (auto split: sum.splits prod.splits option.splits if_splits)

lemma well_formed_risk_label: "well_formed (fst (risk_label pr))"
  by (simp add: risk_label_def well_formed_lit split: option.splits)

lemma submit_handler_completes:
  assumes po: "predict_one w [float_of_int g, float_of_int bp, float_of_int ins, bmi,
                 float_of_int age] = Inr (p0, pr)"
    and bar: "pr = None \<or>
       (\<exists>p n. pr = Some p \<and> int_pct rt p = Inr n \<and> 0 \<le> n \<and> n \<le> 100 \<and>
          well_formed (fmt_pct rt p))"
    and wf: "well_formed name" "well_formed (str_float rt bmi)"
  shows "\<exists>l. snd (submit_handler rt w name g bp ins bmi age) = Inr l"
proof -
  let ?p1 = "if healthy_expr g bp ins bmi age then 0 else p0"
  let ?res = "if ?p1 = 1 then lit ''Diabetic'' else lit ''Not Diabetic''"
  let ?pct = "case pr of None \<Rightarrow> lit ''N/A'' | Some p \<Rightarrow> fmt_pct rt p"
  have wres: "well_formed ?res" by (simp add: well_formed_lit)
  have wpct: "well_formed ?pct"
    using bar by (auto simp: well_formed_lit)
  from generate_text_report_ok [OF wf(1) wf(2) wres well_formed_risk_label wpct,
      of w g bp ins age pr]
  obtain bs where
    bs: "generate_text_report rt w name g bp ins bmi age ?res (fst (risk_label pr)) ?pct = Inr bs"
    by blast
  show ?thesis
    using po bar bs unfolding submit_handler_def Let_def
    by (auto simp: st_progress_def split: prod.splits)
qed

text \<open>
  Claim C1. When the five inputs lie in the healthy ranges (glucose 70 to 120, blood
  pressure 60 to 80, insulin 15 to 276, BMI 18.5 to 24.9, age 18 to 60, bounds included),
  the final label of the handler is \<open>Not Diabetic\<close> whatever the model predicted and
  whatever probability it gave.
\<close>

theorem healthy_forces_not_diabetic:
  assumes "70 \<le> glucose \<and> glucose \<le> 120" and "60 \<le> bp \<and> bp \<le> 80"
    and "15 \<le> insulin \<and> insulin \<le> 276" and "flt_le f_18_5 bmi \<and> flt_le bmi f_24_9"
    and "18 \<le> age \<and> age \<le> 60"
    and "snd (submit_handler rt w name glucose bp insulin bmi age) = Inr l"
  shows "result l = lit ''Not Diabetic'' \<and> pred l = 0"
proof -
  have "healthy_expr glucose bp insulin bmi age"
    using assms(1-5) by (simp add: healthy_expr_def)
  then show ?thesis
    using submit_handler_Inr [OF assms(6)] by auto
qed

lemma stub_run_A:
  "predict_one \<lparr>model = stub_diabetic, clock = stub_clock\<rparr>
     [float_of_int 100, float_of_int 70, float_of_int 100, Finite 22, float_of_int 30] =
   Inr (1, Some f_0_8)"
  by (simp add: predict_one_def stub_diabetic_def)

lemma stub_rt_bar:
  "Some f_0_8 = None \<or>
     (\<exists>p n. Some f_0_8 = Some p \<and> int_pct stub_rt p = Inr n \<and> 0 \<le> n \<and> n \<le> 100 \<and>
        well_formed (fmt_pct stub_rt p))"
  by (simp add: stub_rt_def well_formed_lit)

lemma stub_rt_str_float: "well_formed (str_float stub_rt x)"
  by (simp add: stub_rt_def well_formed_lit)

theorem healthy_forces_not_diabetic_witness:
  "(70 \<le> (100::int) \<and> (100::int) \<le> 120) \<and> (60 \<le> (70::int) \<and> (70::int) \<le> 80) \<and>
   (15 \<le> (100::int) \<and> (100::int) \<le> 276) \<and>
   (flt_le f_18_5 (Finite 22) \<and> flt_le (Finite 22) f_24_9) \<and>
   (18 \<le> (30::int) \<and> (30::int) \<le> 60) \<and>
   predict_one \<lparr>model = stub_diabetic, clock = stub_clock\<rparr>
     [float_of_int 100, float_of_int 70, float_of_int 100, Finite 22, float_of_int 30] =
     Inr (1, Some f_0_8) \<and>
   (\<exists>l. snd (submit_handler stub_rt \<lparr>model = stub_diabetic, clock = stub_clock\<rparr> []
             100 70 100 (Finite 22) 30) = Inr l \<and>
        result l = lit ''Not Diabetic'' \<and> pred l = 0)"
proof -
  have wn: "well_formed []" by (simp add: well_formed_def)
  from submit_handler_completes [OF stub_run_A stub_rt_bar wn stub_rt_str_float]
  obtain l where l: "snd (submit_handler stub_rt \<lparr>model = stub_diabetic, clock = stub_clock\<rparr> []
             100 70 100 (Finite 22) 30) = Inr l"
    by blast
  have h: "70 \<le> (100::int) \<and> (100::int) \<le> 120" "60 \<le> (70::int) \<and> (70::int) \<le> 80"
    "15 \<le> (100::int) \<and> (100::int) \<le> 276"
    "flt_le f_18_5 (Finite 22) \<and> flt_le (Finite 22) f_24_9"
    "18 \<le> (30::int) \<and> (30::int) \<le> 60"
    by (simp_all add: f_18_5_def f_24_9_def)
  from healthy_forces_not_diabetic [OF h l]
  have "result l = lit ''Not Diabetic'' \<and> pred l = 0" .
  with l h stub_run_A show ?thesis by blast
qed

lemma lit_append: "lit a @ lit b = lit (a @ b)"
  by (simp add: lit_def)

lemma stub_run_B:
  "predict_one \<lparr>model = stub_diabetic, clock = stub_clock\<rparr>
     [float_of_int 180, float_of_int 90, float_of_int 300, Finite 35, float_of_int 45] =
   Inr (1, Some f_0_8)"
  by (simp add: predict_one_def stub_diabetic_def)

lemma not_healthy_B: "\<not> healthy_expr 180 90 300 (Finite 35) 45"
  by (simp add: healthy_expr_def)

text \<open>
  Claim C3. The override goes one way. If the final label is \<open>Diabetic\<close>, the model's
  own label was 1; a model label other than 1 always ends as \<open>Not Diabetic\<close>; and the
  final label differs from the model's only when the inputs are healthy and the model
  said 1, the final label then being \<open>Not Diabetic\<close>.
\<close>

theorem override_one_directional:
  assumes "snd (submit_handler rt w name glucose bp insulin bmi age) = Inr l"
    and "predict (model w) [float_of_int glucose, float_of_int bp, float_of_int insulin, bmi,
           float_of_int age] = Inr p0"
  shows "(result l = lit ''Diabetic'' \<longrightarrow> p0 = 1) \<and>
     (p0 \<noteq> 1 \<longrightarrow> result l = lit ''Not Diabetic'') \<and>
     (\<not> healthy_expr glucose bp insulin bmi age \<longrightarrow>
        result l = (if p0 = 1 then lit ''Diabetic'' else lit ''Not Diabetic'')) \<and>
     (result l \<noteq> (if p0 = 1 then lit ''Diabetic'' else lit ''Not Diabetic'') \<longrightarrow>
        healthy_expr glucose bp insulin bmi age \<and> p0 = 1 \<and> result l = lit ''Not Diabetic'')"
proof -
  from submit_handler_Inr [OF assms(1)] obtain q where
    q: "predict_one w [float_of_int glucose, float_of_int bp, float_of_int insulin, bmi,
          float_of_int age] = Inr (q, proba l)"
    and h: "healthy l = healthy_expr glucose bp insulin bmi age"
    and p: "pred l = (if healthy l then 0 else q)"
    and r: "result l = (if pred l = 1 then lit ''Diabetic'' else lit ''Not Diabetic'')"
    by blast
  have "q = p0"
    using predict_one_Inr [OF q] assms(2) by simp
  moreover have "lit ''Diabetic'' \<noteq> lit ''Not Diabetic''"
    by (simp add: lit_def)
  ultimately show ?thesis
    using h p r by auto
qed

theorem override_one_directional_witness:
  "\<exists>l. snd (submit_handler stub_rt \<lparr>model = stub_diabetic, clock = stub_clock\<rparr> []
            180 90 300 (Finite 35) 45) = Inr l \<and>
       predict (model \<lparr>model = stub_diabetic, clock = stub_clock\<rparr>)
         [float_of_int 180, float_of_int 90, float_of_int 300, Finite 35, float_of_int 45] =
         Inr 1 \<and>
       \<not> healthy_expr 180 90 300 (Finite 35) 45 \<and>
       result l = lit ''Diabetic''"
proof -
  have wn: "well_formed []" by (simp add: well_formed_def)
  from submit_handler_completes [OF stub_run_B stub_rt_bar wn stub_rt_str_float]
  obtain l where l: "snd (submit_handler stub_rt \<lparr>model = stub_diabetic, clock = stub_clock\<rparr> []
             180 90 300 (Finite 35) 45) = Inr l"
    by blast
  have raw: "predict (model \<lparr>model = stub_diabetic, clock = stub_clock\<rparr>)
         [float_of_int 180, float_of_int 90, float_of_int 300, Finite 35, float_of_int 45] =
         Inr 1"
    by (simp add: stub_diabetic_def)
  from override_one_directional [OF l raw] not_healthy_B
  have "result l = lit ''Diabetic''" by simp
  with l raw not_healthy_B show ?thesis by blast
qed

text \<open>
  Claim C7. When the model's \<open>predict\<close> raises, \<open>predict_one\<close> raises the same
  exception and the handler ends with it before it has shown anything: no banner, no
  progress bar, no card, no report.
\<close>

theorem predict_failure_surfaces:
  assumes "predict (model w) [float_of_int glucose, float_of_int bp, float_of_int insulin, bmi,
             float_of_int age] = Inl e"
  shows "predict_one w [float_of_int glucose, float_of_int bp, float_of_int insulin, bmi,
             float_of_int age] = Inl e \<and>
         submit_handler rt w name glucose bp insulin bmi age = ([], Inl e)"
  using predict_one_raises [OF assms] by (simp add: submit_handler_def)

theorem predict_failure_surfaces_witness:
  "predict (model \<lparr>model = stub_predict_raises, clock = stub_clock\<rparr>)
     [float_of_int 180, float_of_int 90, float_of_int 300, Finite 35, float_of_int 45] =
     Inl (Exc ''ValueError'') \<and>
   predict_one \<lparr>model = stub_predict_raises, clock = stub_clock\<rparr>
     [float_of_int 180, float_of_int 90, float_of_int 300, Finite 35, float_of_int 45] =
     Inl (Exc ''ValueError'') \<and>
   submit_handler stub_rt \<lparr>model = stub_predict_raises, clock = stub_clock\<rparr> (lit ''Ada'')
     180 90 300 (Finite 35) 45 = ([], Inl (Exc ''ValueError''))"
proof -
  have h: "predict (model \<lparr>model = stub_predict_raises, clock = stub_clock\<rparr>)
     [float_of_int 180, float_of_int 90, float_of_int 300, Finite 35, float_of_int 45] =
     Inl (Exc ''ValueError'')"
    by (simp add: stub_predict_raises_def)
  show ?thesis
    using h predict_failure_surfaces [OF h, of stub_rt "lit ''Ada''"] by blast
qed

lemma shown_bucket_append: "shown_bucket (xs @ ys) = shown_bucket xs @ shown_bucket ys"
  by (induction xs rule: shown_bucket.induct) simp_all

lemma submit_handler_shown:
  assumes "snd (submit_handler rt w name g bp ins bmi age) = Inr l"
  shows "shown_bucket (fst (submit_handler rt w name g bp ins bmi age)) = [label l]"
  using assms unfolding submit_handler_def Let_def
  by (auto simp: shown_bucket_append st_progress_def
      split: sum.splits prod.splits option.splits if_splits)

lemma submit_handler_banner:
  assumes "snd (submit_handler rt w name g bp ins bmi age) = Inr l"
  shows "Markdown ((if pred l = 1 then banner_diabetes else banner_not_diabetes)
           (if name = [] then lit ''Patient'' else name))
         \<in> set (fst (submit_handler rt w name g bp ins bmi age))"
  using assms unfolding submit_handler_def Let_def
  by (auto split: sum.splits prod.splits option.splits if_splits)

lemma submit_handler_download:
  assumes "snd (submit_handler rt w name g bp ins bmi age) = Inr l"
  shows "DownloadButton ([0x2B07, 0xFE0F] @ lit '' Download Report (TXT)'') (txt_bytes l)
           ((if name = [] then lit ''patient'' else name) @ lit ''_report.txt'')
           (lit ''text/plain'')
         \<in> set (fst (submit_handler rt w name g bp ins bmi age))"
  using assms unfolding submit_handler_def Let_def
  by (auto split: sum.splits prod.splits option.splits if_splits)

text \<open>
  Claim C6. The risk bucket on display, the one on the result card, is \<open>risk_label\<close>
  of the model's probability and of nothing else: two runs with the same probability
  show the same bucket, whether or not the override fired in either. So the card can
  say \<open>High\<close> under a banner that says the patient has not diabetes.
\<close>

theorem risk_bucket_ignores_override:
  assumes "snd (submit_handler rt1 w1 name1 glucose1 bp1 insulin1 bmi1 age1) = Inr l1"
    and "snd (submit_handler rt2 w2 name2 glucose2 bp2 insulin2 bmi2 age2) = Inr l2"
    and "proba l1 = proba l2"
  shows "shown_bucket (fst (submit_handler rt1 w1 name1 glucose1 bp1 insulin1 bmi1 age1)) =
           [fst (risk_label (proba l1))] \<and>
     shown_bucket (fst (submit_handler rt2 w2 name2 glucose2 bp2 insulin2 bmi2 age2)) =
       shown_bucket (fst (submit_handler rt1 w1 name1 glucose1 bp1 insulin1 bmi1 age1)) \<and>
     (\<exists>q. predict_one w1 [float_of_int glucose1, float_of_int bp1, float_of_int insulin1, bmi1,
             float_of_int age1] = Inr (q, proba l1)) \<and>
     label l1 = label l2 \<and> label l1 = fst (risk_label (proba l1))"
proof -
  from submit_handler_Inr [OF assms(1)] have
    q: "\<exists>q. predict_one w1 [float_of_int glucose1, float_of_int bp1, float_of_int insulin1,
          bmi1, float_of_int age1] = Inr (q, proba l1)"
    and b1: "label l1 = fst (risk_label (proba l1))"
    by blast+
  from submit_handler_Inr [OF assms(2)] have b2: "label l2 = fst (risk_label (proba l2))"
    by blast
  show ?thesis
    using submit_handler_shown [OF assms(1)] submit_handler_shown [OF assms(2)] q b1 b2
      assms(3)
    by simp
qed

theorem risk_bucket_ignores_override_witness:
  "\<exists>l1 l2.
     snd (submit_handler stub_rt \<lparr>model = stub_diabetic, clock = stub_clock\<rparr> []
            100 70 100 (Finite 22) 30) = Inr l1 \<and>
     snd (submit_handler stub_rt \<lparr>model = stub_diabetic, clock = stub_clock\<rparr> []
            180 90 300 (Finite 35) 45) = Inr l2 \<and>
     proba l1 = proba l2 \<and> healthy l1 \<and> \<not> healthy l2 \<and>
     result l1 = lit ''Not Diabetic'' \<and> result l2 = lit ''Diabetic'' \<and>
     Markdown (banner_not_diabetes (lit ''Patient''))
       \<in> set (fst (submit_handler stub_rt \<lparr>model = stub_diabetic, clock = stub_clock\<rparr> []
            100 70 100 (Finite 22) 30)) \<and>
     Markdown (banner_diabetes (lit ''Patient''))
       \<in> set (fst (submit_handler stub_rt \<lparr>model = stub_diabetic, clock = stub_clock\<rparr> []
            180 90 300 (Finite 35) 45)) \<and>
     shown_bucket (fst (submit_handler stub_rt \<lparr>model = stub_diabetic, clock = stub_clock\<rparr> []
            100 70 100 (Finite 22) 30)) = [[72, 105, 103, 104]] \<and>
     shown_bucket (fst (submit_handler stub_rt \<lparr>model = stub_diabetic, clock = stub_clock\<rparr> []
            180 90 300 (Finite 35) 45)) = [[72, 105, 103, 104]] \<and>
     label l1 = label l2"
proof -
  let ?w = "\<lparr>model = stub_diabetic, clock = stub_clock\<rparr>"
  have wn: "well_formed []" by (simp add: well_formed_def)
  from submit_handler_completes [OF stub_run_A stub_rt_bar wn stub_rt_str_float]
  obtain l1 where l1: "snd (submit_handler stub_rt ?w [] 100 70 100 (Finite 22) 30) = Inr l1"
    by blast
  from submit_handler_completes [OF stub_run_B stub_rt_bar wn stub_rt_str_float]
  obtain l2 where l2: "snd (submit_handler stub_rt ?w [] 180 90 300 (Finite 35) 45) = Inr l2"
    by blast
  have hA: "healthy_expr 100 70 100 (Finite 22) 30"
    by (simp add: healthy_expr_def f_18_5_def f_24_9_def)
  have p1: "proba l1 = Some f_0_8" and h1: "healthy l1" and d1: "pred l1 = 0"
    and r1: "result l1 = lit ''Not Diabetic''"
    using submit_handler_Inr [OF l1] stub_run_A hA by auto
  have p2: "proba l2 = Some f_0_8" and h2: "\<not> healthy l2" and d2: "pred l2 = 1"
    and r2: "result l2 = lit ''Diabetic''"
    using submit_handler_Inr [OF l2] stub_run_B not_healthy_B by auto
  have eq: "proba l1 = proba l2" using p1 p2 by simp
  have m1: "Markdown (banner_not_diabetes (lit ''Patient''))
      \<in> set (fst (submit_handler stub_rt ?w [] 100 70 100 (Finite 22) 30))"
    using submit_handler_banner [OF l1] d1 by simp
  have m2: "Markdown (banner_diabetes (lit ''Patient''))
      \<in> set (fst (submit_handler stub_rt ?w [] 180 90 300 (Finite 35) 45))"
    using submit_handler_banner [OF l2] d2 by simp
  have "flt_le f_0_67 f_0_8" by (simp add: f_0_67_def f_0_8_def)
  then have "fst (risk_label (Some f_0_8)) = lit ''High''" by (rule risk_label_High)
  then have hi: "fst (risk_label (proba l1)) = [72, 105, 103, 104]"
    using p1 by (simp add: lit_def)
  from risk_bucket_ignores_override [OF l1 l2 eq] hi
  have s1: "shown_bucket (fst (submit_handler stub_rt ?w [] 100 70 100 (Finite 22) 30)) =
      [[72, 105, 103, 104]]"
    and s2: "shown_bucket (fst (submit_handler stub_rt ?w [] 180 90 300 (Finite 35) 45)) =
      [[72, 105, 103, 104]]"
    and lb: "label l1 = label l2"
    by simp_all
  show ?thesis
    using l1 l2 eq h1 h2 r1 r2 m1 m2 s1 s2 lb by blast
qed

text \<open>
  Claim C4. When the model has no \<open>predict_proba\<close>, or its call raises an error (an
  instance of \<open>Exception\<close>, which is what the handler of \<open>predict_one\<close> catches),
  \<open>predict_one\<close> returns the label with the probability \<open>None\<close> and raises nothing. The
  handler then runs to its end with the percentage text \<open>N/A\<close> and the bucket
  \<open>Unknown\<close>, and the report's bytes read back as lines among which are
  \<open>Probability: N/A\<close> and \<open>Risk Level: Unknown\<close>.
\<close>

theorem proba_unavailable_is_absent:
  assumes "predict (model w) [float_of_int glucose, float_of_int bp, float_of_int insulin, bmi,
             float_of_int age] = Inr p0"
    and "predict_proba (model w) = None \<or>
         (\<exists>call e. predict_proba (model w) = Some call \<and>
            call [float_of_int glucose, float_of_int bp, float_of_int insulin, bmi,
                  float_of_int age] = Inl e \<and> is_Exception e)"
    and "well_formed name" and "well_formed (str_float rt bmi)"
  shows "predict_one w [float_of_int glucose, float_of_int bp, float_of_int insulin, bmi,
             float_of_int age] = Inr (p0, None) \<and>
     (\<exists>l. snd (submit_handler rt w name glucose bp insulin bmi age) = Inr l \<and>
        proba l = None \<and> pct_text l = lit ''N/A'' \<and> label l = lit ''Unknown'' \<and>
        (\<exists>ls. utf8_decode (txt_bytes l) = Some (join [10] ls) \<and>
           lit ''Probability: N/A'' \<in> set ls \<and> lit ''Risk Level: Unknown'' \<in> set ls))"
proof -
  let ?row = "[float_of_int glucose, float_of_int bp, float_of_int insulin, bmi,
              float_of_int age]"
  have po: "predict_one w ?row = Inr (p0, None)"
    using assms(1,2) by (rule predict_one_no_proba)
  have bar: "(None :: pyfloat option) = None \<or>
      (\<exists>p n. None = Some p \<and> int_pct rt p = Inr n \<and> 0 \<le> n \<and> n \<le> 100 \<and>
         well_formed (fmt_pct rt p))"
    by simp
  from submit_handler_completes [OF po bar assms(3,4)]
  obtain l where l: "snd (submit_handler rt w name glucose bp insulin bmi age) = Inr l"
    by blast
  from submit_handler_Inr [OF l] po
  have pr: "proba l = None"
    and lb: "label l = fst (risk_label (proba l))"
    and pc: "pct_text l = (case proba l of None \<Rightarrow> lit ''N/A'' | Some p \<Rightarrow> fmt_pct rt p)"
    and gen: "generate_text_report rt w name glucose bp insulin bmi age (result l) (label l)
        (pct_text l) = Inr (txt_bytes l)"
    and rs: "result l = (if pred l = 1 then lit ''Diabetic'' else lit ''Not Diabetic'')"
    by auto
  have lb': "label l = lit ''Unknown''" using lb pr by (simp add: risk_label_None)
  have pc': "pct_text l = lit ''N/A''" using pc pr by simp
  have wr: "well_formed (result l)" using rs by (simp add: well_formed_lit)
  have wl: "well_formed (label l)" "well_formed (pct_text l)"
    using lb' pc' by (simp_all add: well_formed_lit)
  let ?ls = "report_lines rt w name glucose bp insulin bmi age (result l) (label l) (pct_text l)"
  from generate_text_report_ok [OF assms(3,4) wr wl, of w glucose bp insulin age] gen
  have dec: "utf8_decode (txt_bytes l) = Some (join [10] ?ls)"
    by auto
  have m1: "lit ''Probability: N/A'' \<in> set ?ls"
    unfolding report_lines_eq pc' by (simp add: lit_append)
  have m2: "lit ''Risk Level: Unknown'' \<in> set ?ls"
    unfolding report_lines_eq lb' by (simp add: lit_append)
  show ?thesis
    using po l pr pc' lb' dec m1 m2 by blast
qed

theorem proba_unavailable_is_absent_witness:
  "predict (model \<lparr>model = stub_no_proba, clock = stub_clock\<rparr>)
     [float_of_int 180, float_of_int 90, float_of_int 300, Finite 35, float_of_int 45] = Inr 1 \<and>
   predict_proba (model \<lparr>model = stub_no_proba, clock = stub_clock\<rparr>) = None \<and>
   well_formed (lit ''Ada'') \<and> well_formed (str_float stub_rt (Finite 35)) \<and>
   predict_one \<lparr>model = stub_no_proba, clock = stub_clock\<rparr>
     [float_of_int 180, float_of_int 90, float_of_int 300, Finite 35, float_of_int 45] =
     Inr (1, None) \<and>
   (\<exists>l. snd (submit_handler stub_rt \<lparr>model = stub_no_proba, clock = stub_clock\<rparr> (lit ''Ada'')
             180 90 300 (Finite 35) 45) = Inr l \<and>
        proba l = None \<and> pct_text l = lit ''N/A'' \<and> label l = lit ''Unknown'' \<and>
        (\<exists>ls. utf8_decode (txt_bytes l) = Some (join [10] ls) \<and>
           lit ''Probability: N/A'' \<in> set ls \<and> lit ''Risk Level: Unknown'' \<in> set ls)) \<and>
   (\<exists>call e. predict_proba (model \<lparr>model = stub_proba_raises, clock = stub_clock\<rparr>) = Some call \<and>
      call [float_of_int 180, float_of_int 90, float_of_int 300, Finite 35, float_of_int 45] =
        Inl e \<and> is_Exception e) \<and>
   predict_one \<lparr>model = stub_proba_raises, clock = stub_clock\<rparr>
     [float_of_int 180, float_of_int 90, float_of_int 300, Finite 35, float_of_int 45] =
     Inr (1, None)"
proof -
  have a1: "predict (model \<lparr>model = stub_no_proba, clock = stub_clock\<rparr>)
     [float_of_int 180, float_of_int 90, float_of_int 300, Finite 35, float_of_int 45] = Inr 1"
    by (simp add: stub_no_proba_def)
  have a2: "predict_proba (model \<lparr>model = stub_no_proba, clock = stub_clock\<rparr>) = None"
    by (simp add: stub_no_proba_def)
  have b1: "predict (model \<lparr>model = stub_proba_raises, clock = stub_clock\<rparr>)
     [float_of_int 180, float_of_int 90, float_of_int 300, Finite 35, float_of_int 45] = Inr 1"
    by (simp add: stub_proba_raises_def)
  have b2: "\<exists>call e. predict_proba (model \<lparr>model = stub_proba_raises, clock = stub_clock\<rparr>) =
        Some call \<and>
      call [float_of_int 180, float_of_int 90, float_of_int 300, Finite 35, float_of_int 45] =
        Inl e \<and> is_Exception e"
    by (simp add: stub_proba_raises_def)
  have wf: "well_formed (lit ''Ada'')" "well_formed (str_float stub_rt (Finite 35))"
    by (simp_all add: well_formed_lit stub_rt_str_float)
  from proba_unavailable_is_absent [OF a1 disjI1 [OF a2] wf]
  have A: "predict_one \<lparr>model = stub_no_proba, clock = stub_clock\<rparr>
     [float_of_int 180, float_of_int 90, float_of_int 300, Finite 35, float_of_int 45] =
     Inr (1, None) \<and>
   (\<exists>l. snd (submit_handler stub_rt \<lparr>model = stub_no_proba, clock = stub_clock\<rparr> (lit ''Ada'')
             180 90 300 (Finite 35) 45) = Inr l \<and>
        proba l = None \<and> pct_text l = lit ''N/A'' \<and> label l = lit ''Unknown'' \<and>
        (\<exists>ls. utf8_decode (txt_bytes l) = Some (join [10] ls) \<and>
           lit ''Probability: N/A'' \<in> set ls \<and> lit ''Risk Level: Unknown'' \<in> set ls))" .
  from proba_unavailable_is_absent [OF b1 disjI2 [OF b2] wf]
  have B: "predict_one \<lparr>model = stub_proba_raises, clock = stub_clock\<rparr>
     [float_of_int 180, float_of_int 90, float_of_int 300, Finite 35, float_of_int 45] =
     Inr (1, None)"
    by blast
  show ?thesis
    using a1 a2 wf A b2 B by blast
qed

text \<open>
  What the handler of \<open>predict_one\<close> does not catch: an exception outside
  \<open>Exception\<close>, such as \<open>KeyboardInterrupt\<close>, raised during \<open>predict_proba\<close> leaves
  \<open>predict_one\<close>.
\<close>

lemma predict_one_passes_non_Exception:
  assumes "predict (model w) r = Inr p0"
    and "predict_proba (model w) = Some call" and "call r = Inl (NonExc c)"
  shows "predict_one w r = Inl (NonExc c)"
  using assms by (simp add: predict_one_def)

text \<open>
  With healthy inputs the banner is the \<open>has not diabetes\<close> one as soon as
  \<open>predict_one\<close> has returned, also in a run that a later step ends with an exception.
\<close>

lemma healthy_banner:
  assumes "healthy_expr g bp ins bmi age"
    and "predict_one w [float_of_int g, float_of_int bp, float_of_int ins, bmi,
           float_of_int age] = Inr (p0, pr)"
  shows "\<exists>more. fst (submit_handler rt w name g bp ins bmi age) =
           Markdown (banner_not_diabetes (if name = [] then lit ''Patient'' else name)) # more"
  using assms unfolding submit_handler_def Let_def
  by (auto split: sum.splits prod.splits option.splits)

end
